theory Spec2Isabelle
  imports Main "HOL-Library.Word" "HOL-Library.Sublist"
begin

section \<open>JavaScript strings\<close>

text \<open>
  A JavaScript string is a sequence of UTF-16 code units; \<open>length\<close>, \<open>trim\<close>,
  \<open>endsWith\<close>, \<open>includes\<close> and the regular expressions of the service all work on
  code units. The literals of the source are ASCII and are written with \<open>js\<close>.
\<close>

type_synonym code_unit = "16 word"
type_synonym jsstring = "code_unit list"

definition cu :: "char \<Rightarrow> code_unit" where
  "cu c = of_nat (of_char c)"

definition js :: "string \<Rightarrow> jsstring" where
  "js s = map cu s"

text \<open>
  \<open>String.prototype.trim\<close> removes WhiteSpace and LineTerminator code units from both
  ends: TAB, LF, VT, FF, CR, SP, NBSP, the Unicode space separators, LS, PS and the
  byte order mark U+FEFF.
\<close>

definition isWhiteSpace :: "code_unit \<Rightarrow> bool" where
  "isWhiteSpace c \<longleftrightarrow>
     c \<in> set [0x0009, 0x000A, 0x000B, 0x000C, 0x000D, 0x0020, 0x00A0, 0x1680,
              0x2000, 0x2001, 0x2002, 0x2003, 0x2004, 0x2005, 0x2006, 0x2007,
              0x2008, 0x2009, 0x200A, 0x2028, 0x2029, 0x202F, 0x205F, 0x3000, 0xFEFF]"

definition trim :: "jsstring \<Rightarrow> jsstring" where
  "trim s = rev (dropWhile isWhiteSpace (rev (dropWhile isWhiteSpace s)))"

definition endsWith :: "jsstring \<Rightarrow> jsstring \<Rightarrow> bool" where
  "endsWith s t \<longleftrightarrow> suffix t s"

text \<open>\<open>s.includes(t)\<close>: \<open>t\<close> occurs in \<open>s\<close> as a contiguous run of code units.\<close>

fun includes_str :: "jsstring \<Rightarrow> jsstring \<Rightarrow> bool" where
  "includes_str [] t = (t = [])"
| "includes_str (c # s) t = (prefix t (c # s) \<or> includes_str s t)"

text \<open>\<open>(s.match(/c/g) || []).length\<close> for a single-character pattern.\<close>

definition matchCount :: "code_unit \<Rightarrow> jsstring \<Rightarrow> nat" where
  "matchCount c s = length (filter (\<lambda>x. x = c) s)"

section \<open>The JSON repair engine\<close>

definition tryRepairJson :: "jsstring \<Rightarrow> jsstring" where
  "tryRepairJson jsonStr =
     (let cleaned = trim jsonStr in
      if \<not> endsWith cleaned (js ''}'') then
        (let cleaned = (if endsWith cleaned (js ''\"'') then cleaned else cleaned @ js ''\"'');
             cleaned = (if matchCount (cu CHR ''['') cleaned > matchCount (cu CHR '']'') cleaned
                        then cleaned @ js '']'' else cleaned);
             cleaned = (if matchCount (cu CHR ''{'') cleaned > matchCount (cu CHR ''}'') cleaned
                        then cleaned @ js ''}'' else cleaned)
         in cleaned)
      else cleaned)"

section \<open>JSON values and \<open>JSON.parse\<close>\<close>

text \<open>
  The values \<open>JSON.parse\<close> can return. A number is kept as its literal: the conversion
  to a double is not modelled. An object is the list of its properties in creation
  order; the engine's reordering of integer-like keys is not modelled.
\<close>

datatype json =
    JNull
  | JBool bool
  | JNumber jsstring
  | JString jsstring
  | JArray "json list"
  | JObject "(jsstring \<times> json) list"

text \<open>Defining a property: an existing key keeps its place and takes the new value.\<close>

fun putProperty :: "(jsstring \<times> json) list \<Rightarrow> jsstring \<Rightarrow> json \<Rightarrow> (jsstring \<times> json) list" where
  "putProperty [] k v = [(k, v)]"
| "putProperty ((k', v') # kvs) k v =
     (if k' = k then (k, v) # kvs else (k', v') # putProperty kvs k v)"

fun getProperty :: "json \<Rightarrow> jsstring \<Rightarrow> json option" where
  "getProperty (JObject kvs) k = map_of kvs k"
| "getProperty _ k = None"

text \<open>JSON white space is only space, tab, line feed and carriage return.\<close>

definition isJsonWs :: "code_unit \<Rightarrow> bool" where
  "isJsonWs c \<longleftrightarrow> c = 0x20 \<or> c = 0x09 \<or> c = 0x0A \<or> c = 0x0D"

definition skip_ws :: "jsstring \<Rightarrow> jsstring" where
  "skip_ws s = dropWhile isJsonWs s"

definition isDigit :: "code_unit \<Rightarrow> bool" where
  "isDigit c \<longleftrightarrow> 0x30 \<le> c \<and> c \<le> 0x39"

definition hexDigit :: "code_unit \<Rightarrow> code_unit option" where
  "hexDigit c =
     (if 0x30 \<le> c \<and> c \<le> 0x39 then Some (c - 0x30)
      else if 0x41 \<le> c \<and> c \<le> 0x46 then Some (c - 0x41 + 10)
      else if 0x61 \<le> c \<and> c \<le> 0x66 then Some (c - 0x61 + 10)
      else None)"

definition escapeChar :: "code_unit \<Rightarrow> code_unit option" where
  "escapeChar e =
     (if e = cu CHR ''\"'' then Some 0x22
      else if e = 0x5C then Some 0x5C
      else if e = cu CHR ''/'' then Some 0x2F
      else if e = cu CHR ''b'' then Some 0x08
      else if e = cu CHR ''f'' then Some 0x0C
      else if e = cu CHR ''n'' then Some 0x0A
      else if e = cu CHR ''r'' then Some 0x0D
      else if e = cu CHR ''t'' then Some 0x09
      else None)"

text \<open>
  The characters of a string literal after its opening quote, up to the closing quote:
  the decoded string and the rest of the input.
\<close>

fun parse_string :: "jsstring \<Rightarrow> jsstring \<Rightarrow> (jsstring \<times> jsstring) option" where
  "parse_string acc [] = None"
| "parse_string acc (c # s) =
     (if c = 0x22 then Some (acc, s)
      else if c = 0x5C then
        (case s of
           [] \<Rightarrow> None
         | e # s1 \<Rightarrow>
             if e = cu CHR ''u'' then
               (case s1 of
                  h1 # h2 # h3 # h4 # s2 \<Rightarrow>
                    (case (hexDigit h1, hexDigit h2, hexDigit h3, hexDigit h4) of
                       (Some a, Some b, Some c, Some d) \<Rightarrow>
                         parse_string (acc @ [((a * 16 + b) * 16 + c) * 16 + d]) s2
                     | _ \<Rightarrow> None)
                | _ \<Rightarrow> None)
             else
               (case escapeChar e of
                  None \<Rightarrow> None
                | Some x \<Rightarrow> parse_string (acc @ [x]) s1))
      else if c < 0x20 then None
      else parse_string (acc @ [c]) s)"

text \<open>
  A number literal: an optional minus, an integer part without leading zeros, an
  optional fraction and an optional exponent.
\<close>

definition parse_int_part :: "jsstring \<Rightarrow> (jsstring \<times> jsstring) option" where
  "parse_int_part s =
     (case s of
        [] \<Rightarrow> None
      | c # r \<Rightarrow>
          if c = 0x30 then Some ([c], r)
          else if isDigit c then Some (c # takeWhile isDigit r, dropWhile isDigit r)
          else None)"

definition parse_frac_part :: "jsstring \<Rightarrow> (jsstring \<times> jsstring) option" where
  "parse_frac_part s =
     (case s of
        [] \<Rightarrow> Some ([], s)
      | c # r \<Rightarrow>
          if c = cu CHR ''.'' then
            (if takeWhile isDigit r = [] then None
             else Some (c # takeWhile isDigit r, dropWhile isDigit r))
          else Some ([], s))"

definition parse_exp_part :: "jsstring \<Rightarrow> (jsstring \<times> jsstring) option" where
  "parse_exp_part s =
     (case s of
        [] \<Rightarrow> Some ([], s)
      | c # r \<Rightarrow>
          if c = cu CHR ''e'' \<or> c = cu CHR ''E'' then
            (let (sg, r1) =
                   (case r of
                      [] \<Rightarrow> ([], r)
                    | d # r2 \<Rightarrow>
                        if d = cu CHR ''+'' \<or> d = cu CHR ''-'' then ([d], r2) else ([], r))
             in if takeWhile isDigit r1 = [] then None
                else Some (c # sg @ takeWhile isDigit r1, dropWhile isDigit r1))
          else Some ([], s))"

definition parse_number :: "jsstring \<Rightarrow> (jsstring \<times> jsstring) option" where
  "parse_number s =
     (let (sg, s1) =
            (case s of
               [] \<Rightarrow> ([], s)
             | c # r \<Rightarrow> if c = cu CHR ''-'' then ([c], r) else ([], s))
      in case parse_int_part s1 of
           None \<Rightarrow> None
         | Some (ip, s2) \<Rightarrow>
             (case parse_frac_part s2 of
                None \<Rightarrow> None
              | Some (fp, s3) \<Rightarrow>
                  (case parse_exp_part s3 of
                     None \<Rightarrow> None
                   | Some (ep, s4) \<Rightarrow> Some (sg @ ip @ fp @ ep, s4))))"

text \<open>
  The recursive-descent parser of the JSON grammar. Each function returns the value
  read and the rest of the input. \<open>parse_elements\<close> reads the elements of an array
  after its opening bracket, \<open>parse_members\<close> the members of an object after its opening
  brace. The length tests before the recursive calls make the recursion evidently
  terminating; they always hold (lemmas \<open>parse_elements_unguarded\<close> and
  \<open>parse_members_unguarded\<close>).
\<close>

function parse_value :: "jsstring \<Rightarrow> (json \<times> jsstring) option"
  and parse_elements :: "json list \<Rightarrow> jsstring \<Rightarrow> (json \<times> jsstring) option"
  and parse_members :: "(jsstring \<times> json) list \<Rightarrow> jsstring \<Rightarrow> (json \<times> jsstring) option"
where
  "parse_value s =
     (case skip_ws s of
        [] \<Rightarrow> None
      | c # r \<Rightarrow>
          if c = cu CHR ''{'' then
            (case skip_ws r of
               [] \<Rightarrow> None
             | d # r1 \<Rightarrow> if d = cu CHR ''}'' then Some (JObject [], r1) else parse_members [] r)
          else if c = cu CHR ''['' then
            (case skip_ws r of
               [] \<Rightarrow> None
             | d # r1 \<Rightarrow> if d = cu CHR '']'' then Some (JArray [], r1) else parse_elements [] r)
          else if c = 0x22 then
            (case parse_string [] r of
               None \<Rightarrow> None
             | Some (str, r1) \<Rightarrow> Some (JString str, r1))
          else if prefix (js ''true'') (c # r) then Some (JBool True, drop 4 (c # r))
          else if prefix (js ''false'') (c # r) then Some (JBool False, drop 5 (c # r))
          else if prefix (js ''null'') (c # r) then Some (JNull, drop 4 (c # r))
          else
            (case parse_number (c # r) of
               None \<Rightarrow> None
             | Some (n, r1) \<Rightarrow> Some (JNumber n, r1)))"
| "parse_elements acc s =
     (case parse_value s of
        None \<Rightarrow> None
      | Some (v, r) \<Rightarrow>
          (case skip_ws r of
             [] \<Rightarrow> None
           | c # r1 \<Rightarrow>
               if c = cu CHR '','' then
                 (if length r1 < length s then parse_elements (acc @ [v]) r1 else None)
               else if c = cu CHR '']'' then Some (JArray (acc @ [v]), r1)
               else None))"
| "parse_members acc s =
     (case skip_ws s of
        [] \<Rightarrow> None
      | q # r \<Rightarrow>
          if q = 0x22 then
            (case parse_string [] r of
               None \<Rightarrow> None
             | Some (k, r1) \<Rightarrow>
                 (case skip_ws r1 of
                    [] \<Rightarrow> None
                  | c # r2 \<Rightarrow>
                      if c = cu CHR '':'' \<and> length r2 < length s then
                        (case parse_value r2 of
                           None \<Rightarrow> None
                         | Some (v, r3) \<Rightarrow>
                             (case skip_ws r3 of
                                [] \<Rightarrow> None
                              | d # r4 \<Rightarrow>
                                  if d = cu CHR '','' then
                                    (if length r4 < length s
                                     then parse_members (putProperty acc k v) r4 else None)
                                  else if d = cu CHR ''}'' then
                                    Some (JObject (putProperty acc k v), r4)
                                  else None))
                      else None))
          else None)"
  by pat_completeness auto

termination
proof (relation "measure (\<lambda>x. case x of
          Inl s \<Rightarrow> 2 * length s + 1
        | Inr (Inl (acc, s)) \<Rightarrow> 2 * length s + 2
        | Inr (Inr (acc, s)) \<Rightarrow> 2 * length s + 2)", goal_cases)
  case 1
  show ?case by simp
next
  case (2 s c r d r1)
  have "length (skip_ws s) \<le> length s" by (simp add: skip_ws_def length_dropWhile_le)
  with 2(1) have "length (c # r) \<le> length s" by simp
  then show ?case by simp
next
  case (3 s c r d r1)
  have "length (skip_ws s) \<le> length s" by (simp add: skip_ws_def length_dropWhile_le)
  with 3(1) have "length (c # r) \<le> length s" by simp
  then show ?case by simp
next
  case 4
  show ?case by simp
next
  case 5
  then show ?case by simp
next
  case 6
  then show ?case by simp
next
  case 7
  then show ?case by simp
qed

text \<open>
  \<open>JSON.parse\<close>: one value, surrounded by optional white space, and nothing else.
  \<open>None\<close> stands for the \<open>SyntaxError\<close> the built-in throws.
\<close>

definition JSON_parse :: "jsstring \<Rightarrow> json option" where
  "JSON_parse s =
     (case parse_value s of
        None \<Rightarrow> None
      | Some (v, r) \<Rightarrow> if skip_ws r = [] then Some v else None)"

section \<open>Errors, outcomes and effects\<close>

text \<open>
  A thrown value is an error object with a name and a message, which is a string or is
  absent. An asynchronous operation either resolves with a value or rejects with a
  thrown value.
\<close>

datatype js_error = JsError (name: jsstring) (message: "jsstring option")

datatype 'a outcome = Returned 'a | Threw js_error

text \<open>\<open>new Error(m)\<close>, and the \<open>SyntaxError\<close> of \<open>JSON.parse\<close> with its message.\<close>

definition newError :: "jsstring \<Rightarrow> js_error" where
  "newError m = JsError (js ''Error'') (Some m)"

definition syntaxError :: "jsstring \<Rightarrow> js_error" where
  "syntaxError m = JsError (js ''SyntaxError'') (Some m)"

text \<open>\<open>error?.message || ""\<close>\<close>

definition messageOrEmpty :: "js_error \<Rightarrow> jsstring" where
  "messageOrEmpty error = (case message error of None \<Rightarrow> [] | Some m \<Rightarrow> m)"

section \<open>Requests and responses of the generation backend\<close>

datatype schema =
    SString
  | SStringEnum "jsstring list"
  | SInteger
  | SArray schema
  | SObject "(jsstring \<times> schema) list" "jsstring list option"

datatype tool = GoogleSearch

text \<open>
  The records keep the field names of the source, except that the response's \<open>text\<close>
  is \<open>text_payload\<close> and the \<open>title\<close> and \<open>uri\<close> of a \<open>GroundingSource\<close> are
  \<open>source_title\<close> and \<open>source_uri\<close>.
\<close>

record config =
  tools :: "tool list option"
  thinkingBudget :: "int option"
  responseMimeType :: jsstring
  responseSchema :: schema

record request =
  model :: jsstring
  contents :: jsstring
  config :: config

record web_source =
  uri :: "jsstring option"
  title :: "jsstring option"

record grounding_chunk =
  web :: "web_source option"

record grounding_metadata =
  groundingChunks :: "grounding_chunk list option"

record candidate =
  groundingMetadata :: "grounding_metadata option"

record response =
  text_payload :: "jsstring option"
  candidates :: "candidate list option"

record GroundingSource =
  source_title :: jsstring
  source_uri :: jsstring

text \<open>
  What an operation does to the outside, in order: the calls of
  \<open>ai.models.generateContent\<close> and the console output.
\<close>

datatype effect =
    GenerateContent request
  | ConsoleWarn jsstring js_error
  | ConsoleError jsstring js_error

section \<open>The error classifier\<close>

text \<open>
  \<open>safeGenAIRequest\<close> awaits the request function and handles what it throws. The
  argument is the run of the request function: its effects and its outcome.
\<close>

definition safeGenAIRequest :: "effect list \<times> 'a outcome \<Rightarrow> effect list \<times> 'a outcome" where
  "safeGenAIRequest run =
     (case run of
        (effects, Returned x) \<Rightarrow> (effects, Returned x)
      | (effects, Threw error) \<Rightarrow>
          (let errorMsg = messageOrEmpty error in
           if includes_str errorMsg (js ''429'') \<or> includes_str errorMsg (js ''RESOURCE_EXHAUSTED'')
           then (effects, Threw (newError (js ''API_QUOTA_EXCEEDED'')))
           else (effects @ [ConsoleError (js ''GenAI Request Error:'') error], Threw error)))"

section \<open>The request builders\<close>

datatype SectionType = Climate | Water | Air | Noise | Vision

fun sectionString :: "SectionType \<Rightarrow> jsstring" where
  "sectionString Climate = js ''Climate''"
| "sectionString Water = js ''Water''"
| "sectionString Air = js ''Air''"
| "sectionString Noise = js ''Noise''"
| "sectionString Vision = js ''Vision''"

text \<open>\<open>Object.values(Category)\<close>\<close>

definition categoryValues :: "jsstring list" where
  "categoryValues =
     [js ''Climate Change'', js ''Water'', js ''Air'', js ''Noise & Global Change'', js ''Eco Vision'']"

text \<open>The lines of a template literal, joined by line feeds.\<close>

fun joinLines :: "jsstring list \<Rightarrow> jsstring" where
  "joinLines [] = []"
| "joinLines [l] = l"
| "joinLines (l # ls) = l @ [0x0A] @ joinLines ls"

definition researchContents :: "jsstring \<Rightarrow> SectionType \<Rightarrow> jsstring \<Rightarrow> jsstring" where
  "researchContents prompt section languageName = joinLines
     [js ''Act as a world-class environmental scientist. Analyze the following environmental problem: \"''
        @ prompt @ js ''\" in the context of \"'' @ sectionString section @ js ''\".'',
      js ''      '',
      js ''      Use Google Search to find current scientific data and statistics.'',
      js ''      '',
      js ''      Response requirements in '' @ languageName @ js '':'',
      js ''      1. Topic: Professional title.'',
      js ''      2. Summary: Simple 2-sentence overview.'',
      js ''      3. Introduction: 2-3 paragraph overview.'',
      js ''      4. Explanation: Provide a deep technical analysis. IMPORTANT: Keep this field under 3000 characters to ensure the JSON remains valid and fits within the response window.'',
      js ''      5. Background: Context and history.'',
      js ''      6. Causes: Primary drivers.'',
      js ''      7. Impacts: Biological and societal impacts.'',
      js ''      8. Solutions: Practical remediation steps.'',
      js ''      9. Examples: Global case studies.'',
      js ''      10. Prevention Tips: Long-term strategies.'',
      js ''      11. Conclusion: Future outlook.'',
      js ''      12. Visual Prompt: Detailed ENGLISH prompt for a scientific diagram.'',
      js ''      '',
      js ''      CRITICAL: Ensure the response is VALID JSON. Do not let strings exceed 3000 characters.'']"

definition researchSchema :: schema where
  "researchSchema = SObject
     [(js ''topic'', SString),
      (js ''summary'', SString),
      (js ''introduction'', SString),
      (js ''explanation'', SString),
      (js ''background'', SString),
      (js ''causes'', SArray SString),
      (js ''impacts'', SArray SString),
      (js ''solutions'', SArray SString),
      (js ''examples'', SArray SString),
      (js ''preventionTips'', SArray SString),
      (js ''conclusion'', SString),
      (js ''visualPrompt'', SString),
      (js ''category'', SStringEnum categoryValues),
      (js ''section'', SStringEnum [js ''Climate'', js ''Water'', js ''Air'', js ''Noise'', js ''Vision''])]
     (Some [js ''topic'', js ''summary'', js ''introduction'', js ''explanation'', js ''background'',
            js ''causes'', js ''impacts'', js ''solutions'', js ''examples'', js ''preventionTips'',
            js ''conclusion'', js ''visualPrompt'', js ''category'', js ''section''])"

definition researchRequest :: "jsstring \<Rightarrow> SectionType \<Rightarrow> jsstring \<Rightarrow> request" where
  "researchRequest prompt section languageName =
     \<lparr> model = js ''gemini-3-pro-preview'',
       contents = researchContents prompt section languageName,
       config = \<lparr> tools = Some [GoogleSearch],
                  thinkingBudget = Some 4000,
                  responseMimeType = js ''application/json'',
                  responseSchema = researchSchema \<rparr> \<rparr>"

definition planRequest :: "jsstring \<Rightarrow> jsstring \<Rightarrow> request" where
  "planRequest goal languageName =
     \<lparr> model = js ''gemini-3-flash-preview'',
       contents = js ''Create a personalized 7-day sustainability plan for: \"'' @ goal
                  @ js ''\". Language: '' @ languageName @ js ''. Return JSON.'',
       config = \<lparr> tools = None,
                  thinkingBudget = None,
                  responseMimeType = js ''application/json'',
                  responseSchema = SObject
                    [(js ''title'', SString),
                     (js ''days'', SArray (SObject
                        [(js ''day'', SInteger), (js ''task'', SString), (js ''impact'', SString)]
                        None))]
                    (Some [js ''title'', js ''days'']) \<rparr> \<rparr>"

text \<open>
  A coordinate is a number or \<open>undefined\<close>; the template literal prints it. \<open>Some n\<close>
  holds the printed form of the number.
\<close>

definition coordinateString :: "jsstring option \<Rightarrow> jsstring" where
  "coordinateString c = (case c of None \<Rightarrow> js ''undefined'' | Some n \<Rightarrow> n)"

definition statusRequest :: "jsstring option \<Rightarrow> jsstring option \<Rightarrow> jsstring \<Rightarrow> request" where
  "statusRequest lat lng languageName =
     \<lparr> model = js ''gemini-3-pro-preview'',
       contents = js ''Fetch current planetary status and environmental news. Coordinates: ''
                  @ coordinateString lat @ js '','' @ coordinateString lng
                  @ js ''. Return JSON in '' @ languageName @ js ''.'',
       config = \<lparr> tools = Some [GoogleSearch],
                  thinkingBudget = None,
                  responseMimeType = js ''application/json'',
                  responseSchema = SObject
                    [(js ''localTemp'', SString),
                     (js ''localCondition'', SString),
                     (js ''globalAvgTemp'', SString),
                     (js ''news'', SArray (SObject
                        [(js ''title'', SString), (js ''description'', SString), (js ''url'', SString)]
                        None))]
                    (Some [js ''localTemp'', js ''localCondition'', js ''globalAvgTemp'', js ''news'']) \<rparr> \<rparr>"

section \<open>Grounding sources\<close>

text \<open>\<open>response.candidates?.[0]?.groundingMetadata?.groundingChunks\<close>\<close>

definition groundingChunksOf :: "response \<Rightarrow> grounding_chunk list option" where
  "groundingChunksOf response =
     (case candidates response of
        None \<Rightarrow> None
      | Some [] \<Rightarrow> None
      | Some (c # cs) \<Rightarrow>
          (case groundingMetadata c of
             None \<Rightarrow> None
           | Some gm \<Rightarrow> groundingChunks gm))"

text \<open>
  The body of the \<open>forEach\<close>: a chunk is pushed when \<open>chunk.web?.uri && chunk.web?.title\<close>
  is truthy, that is when both strings are present and not empty.
\<close>

definition pushChunk :: "GroundingSource list \<Rightarrow> grounding_chunk \<Rightarrow> GroundingSource list" where
  "pushChunk sources chunk =
     (case web chunk of
        None \<Rightarrow> sources
      | Some w \<Rightarrow>
          (case (uri w, title w) of
             (Some u, Some t) \<Rightarrow>
               if u \<noteq> [] \<and> t \<noteq> [] then sources @ [\<lparr> source_title = t, source_uri = u \<rparr>]
               else sources
           | _ \<Rightarrow> sources))"

definition extractSources :: "response \<Rightarrow> GroundingSource list" where
  "extractSources response =
     (case groundingChunksOf response of
        None \<Rightarrow> []
      | Some chunks \<Rightarrow> foldl pushChunk [] chunks)"

definition sourceJson :: "GroundingSource \<Rightarrow> json" where
  "sourceJson src =
     JObject [(js ''title'', JString (source_title src)), (js ''uri'', JString (source_uri src))]"

section \<open>The task operations\<close>

text \<open>\<open>response.text || '{}'\<close>\<close>

definition textOrEmptyObject :: "response \<Rightarrow> jsstring" where
  "textOrEmptyObject response =
     (case text_payload response of
        None \<Rightarrow> js ''{}''
      | Some t \<Rightarrow> if t = [] then js ''{}'' else t)"

text \<open>The decimal form of an array index, as a property key.\<close>

function decimal :: "nat \<Rightarrow> jsstring" where
  "decimal n = (if n < 10 then [0x30 + of_nat n] else decimal (n div 10) @ [0x30 + of_nat (n mod 10)])"
  by pat_completeness auto
termination
  by (relation "measure (\<lambda>n. n)") auto

text \<open>
  The own enumerable properties that \<open>{...data}\<close> copies: those of an object, the
  indexed elements of an array or of a string, none of any other value.
\<close>

fun spread :: "json \<Rightarrow> (jsstring \<times> json) list" where
  "spread (JObject kvs) = kvs"
| "spread (JArray xs) = zip (map decimal [0..<length xs]) xs"
| "spread (JString s) = zip (map decimal [0..<length s]) (map (\<lambda>c. JString [c]) s)"
| "spread _ = []"

text \<open>
  Each operation takes the two things it does not own: the message of the
  \<open>SyntaxError\<close> that the engine's \<open>JSON.parse\<close> throws on a text, and the backend, which
  answers a request with a response or throws.
\<close>

definition getEnvironmentalSolution ::
  "(jsstring \<Rightarrow> jsstring) \<Rightarrow> (request \<Rightarrow> response outcome) \<Rightarrow>
   jsstring \<Rightarrow> SectionType \<Rightarrow> jsstring \<Rightarrow> effect list \<times> json outcome" where
  "getEnvironmentalSolution syntaxErrorMessage generateContent prompt section languageName =
     safeGenAIRequest
       (let req = researchRequest prompt section languageName in
        case generateContent req of
          Threw e \<Rightarrow> ([GenerateContent req], Threw e)
        | Returned response \<Rightarrow>
            (let jsonText = textOrEmptyObject response in
             case JSON_parse jsonText of
               Some data \<Rightarrow>
                 (let sources = extractSources response in
                  ([GenerateContent req],
                   Returned (JObject (putProperty (spread data) (js ''sources'')
                                        (JArray (map sourceJson sources))))))
             | None \<Rightarrow>
                 (let parseError = syntaxError (syntaxErrorMessage jsonText);
                      warned = [GenerateContent req,
                                ConsoleWarn (js ''Initial JSON parse failed, attempting repair...'')
                                  parseError];
                      repairedJson = tryRepairJson jsonText in
                  case JSON_parse repairedJson of
                    Some v \<Rightarrow> (warned, Returned v)
                  | None \<Rightarrow> (warned, Threw (syntaxError (syntaxErrorMessage repairedJson))))))"

definition generateSustainabilityPlan ::
  "(jsstring \<Rightarrow> jsstring) \<Rightarrow> (request \<Rightarrow> response outcome) \<Rightarrow>
   jsstring \<Rightarrow> jsstring \<Rightarrow> effect list \<times> json outcome" where
  "generateSustainabilityPlan syntaxErrorMessage generateContent goal languageName =
     safeGenAIRequest
       (let req = planRequest goal languageName in
        case generateContent req of
          Threw e \<Rightarrow> ([GenerateContent req], Threw e)
        | Returned response \<Rightarrow>
            (case JSON_parse (textOrEmptyObject response) of
               Some v \<Rightarrow> ([GenerateContent req], Returned v)
             | None \<Rightarrow>
                 ([GenerateContent req],
                  Threw (syntaxError (syntaxErrorMessage (textOrEmptyObject response))))))"

definition getEcoStatus ::
  "(jsstring \<Rightarrow> jsstring) \<Rightarrow> (request \<Rightarrow> response outcome) \<Rightarrow>
   jsstring option \<Rightarrow> jsstring option \<Rightarrow> jsstring \<Rightarrow> effect list \<times> json outcome" where
  "getEcoStatus syntaxErrorMessage generateContent lat lng languageName =
     safeGenAIRequest
       (let req = statusRequest lat lng languageName in
        case generateContent req of
          Threw e \<Rightarrow> ([GenerateContent req], Threw e)
        | Returned response \<Rightarrow>
            (case JSON_parse (textOrEmptyObject response) of
               Some v \<Rightarrow> ([GenerateContent req], Returned v)
             | None \<Rightarrow>
                 ([GenerateContent req],
                  Threw (syntaxError (syntaxErrorMessage (textOrEmptyObject response))))))"

section \<open>Reference definitions\<close>

text \<open>
  The repair policy as a list of steps on the trimmed candidate: unchanged when it
  ends with a closing brace; otherwise a quote unless it ends with one, then a closing
  bracket when the opening brackets outnumber the closing ones, then a closing brace
  when the opening braces outnumber the closing ones.
\<close>

definition repair_spec :: "jsstring \<Rightarrow> jsstring" where
  "repair_spec candidate =
     (let trimmed = trim candidate in
      if endsWith trimmed (js ''}'') then trimmed
      else trimmed
           @ (if endsWith trimmed (js ''\"'') then [] else js ''\"'')
           @ (if matchCount (cu CHR ''['') trimmed > matchCount (cu CHR '']'') trimmed
              then js '']'' else [])
           @ (if matchCount (cu CHR ''{'') trimmed > matchCount (cu CHR ''}'') trimmed
              then js ''}'' else []))"

text \<open>A message that marks quota exhaustion for the classifier.\<close>

definition mentionsQuota :: "jsstring \<Rightarrow> bool" where
  "mentionsQuota m \<longleftrightarrow> includes_str m (js ''429'') \<or> includes_str m (js ''RESOURCE_EXHAUSTED'')"



text \<open>
  Counting effects. The warning is written immediately before the one call of
  \<open>tryRepairJson\<close>, so the warnings of a run count its repair attempts.
\<close>

fun isConsoleWarn :: "effect \<Rightarrow> bool" where
  "isConsoleWarn (ConsoleWarn m e) = True"
| "isConsoleWarn _ = False"

fun isGenerateContent :: "effect \<Rightarrow> bool" where
  "isGenerateContent (GenerateContent req) = True"
| "isGenerateContent _ = False"

definition repairAttempts :: "effect list \<Rightarrow> nat" where
  "repairAttempts effects = length (filter isConsoleWarn effects)"

definition backendCalls :: "effect list \<Rightarrow> nat" where
  "backendCalls effects = length (filter isGenerateContent effects)"

text \<open>The fields a request's schema declares as required.\<close>

definition requiredFields :: "request \<Rightarrow> jsstring list" where
  "requiredFields req =
     (case responseSchema (config req) of
        SObject props (Some required) \<Rightarrow> required
      | _ \<Rightarrow> [])"

definition declaredFields :: "request \<Rightarrow> jsstring list" where
  "declaredFields req =
     (case responseSchema (config req) of
        SObject props required \<Rightarrow> map fst props
      | _ \<Rightarrow> [])"

text \<open>The kind a request's schema declares for a top-level field.\<close>

definition fieldSchema :: "request \<Rightarrow> jsstring \<Rightarrow> schema option" where
  "fieldSchema req k =
     (case responseSchema (config req) of
        SObject props required \<Rightarrow> map_of props k
      | _ \<Rightarrow> None)"

section \<open>Sample environments\<close>

text \<open>
  A backend that answers every request with one response, and one that always throws.
\<close>

definition respondWith :: "response \<Rightarrow> request \<Rightarrow> response outcome" where
  "respondWith r req = Returned r"


definition textResponse :: "jsstring \<Rightarrow> response" where
  "textResponse t = \<lparr> text_payload = Some t, candidates = None \<rparr>"

definition groundedResponse :: "jsstring option \<Rightarrow> grounding_chunk list \<Rightarrow> response" where
  "groundedResponse t chunks =
     \<lparr> text_payload = t,
       candidates = Some [\<lparr> groundingMetadata = Some \<lparr> groundingChunks = Some chunks \<rparr> \<rparr>] \<rparr>"

definition webChunk :: "jsstring option \<Rightarrow> jsstring option \<Rightarrow> grounding_chunk" where
  "webChunk u t = \<lparr> web = Some \<lparr> uri = u, title = t \<rparr> \<rparr>"

text \<open>
  The message of a \<open>SyntaxError\<close> is chosen by the engine. This one quotes the rejected
  text, as engines do for an unexpected token in a short text.
\<close>

definition quotingMessage :: "jsstring \<Rightarrow> jsstring" where
  "quotingMessage t = js ''Unexpected token, \"'' @ t @ js ''\" is not valid JSON''"

section \<open>The parser's length tests always hold\<close>

lemma parse_string_shorter:
  "parse_string acc s = Some (x, r) \<Longrightarrow> length r < length s"
proof (induction s arbitrary: acc rule: length_induct)
  case (1 s)
  show ?case
  proof (cases s)
    case Nil
    with 1(2) show ?thesis by simp
  next
    case (Cons c t)
    show ?thesis
    proof (cases "c = 0x22")
      case True
      with 1(2) Cons show ?thesis by simp
    next
      case q: False
      show ?thesis
      proof (cases "c = 0x5C")
        case False
        with q 1(2) Cons have "parse_string (acc @ [c]) t = Some (x, r)"
          by (auto split: if_splits)
        with 1(1) [rule_format, of t "acc @ [c]"] Cons show ?thesis by simp
      next
        case True
        with q 1(2) Cons obtain e t1 where t: "t = e # t1"
          by (cases t) auto
        show ?thesis
        proof (cases "e = cu CHR ''u''")
          case False
          with True q 1(2) Cons t obtain y where "parse_string (acc @ [y]) t1 = Some (x, r)"
            by (auto split: option.splits)
          with 1(1) [rule_format, of t1 "acc @ [y]"] Cons t show ?thesis by simp
        next
          case u: True
          with True q 1(2) Cons t obtain h1 h2 h3 h4 t2 where t1: "t1 = h1 # h2 # h3 # h4 # t2"
            by (auto split: list.splits)
          with u True q 1(2) Cons t obtain y where "parse_string (acc @ [y]) t2 = Some (x, r)"
            by (auto split: option.splits)
          with 1(1) [rule_format, of t2 "acc @ [y]"] Cons t t1 show ?thesis by simp
        qed
      qed
    qed
  qed
qed


lemma parse_int_part_shorter:
  "parse_int_part s = Some (x, r) \<Longrightarrow> length r < length s"
  unfolding parse_int_part_def
  by (auto split: list.splits if_splits simp: less_Suc_eq_le length_dropWhile_le)

lemma parse_frac_part_shorter:
  "parse_frac_part s = Some (x, r) \<Longrightarrow> length r \<le> length s"
  unfolding parse_frac_part_def
  by (auto split: list.splits if_splits simp: le_SucI length_dropWhile_le)

lemma parse_exp_part_shorter:
  "parse_exp_part s = Some (x, r) \<Longrightarrow> length r \<le> length s"
  unfolding parse_exp_part_def Let_def
  by (auto split: list.splits if_splits prod.splits simp: le_SucI length_dropWhile_le)


lemma parse_number_shorter:
  assumes "parse_number s = Some (x, r)"
  shows "length r < length s"
proof -
  obtain sg s1 where s1: "(case s of [] \<Rightarrow> ([], s) | c # r \<Rightarrow> if c = cu CHR ''-'' then ([c], r) else ([], s)) = (sg, s1)"
    by fastforce
  then have l1: "length s1 \<le> length s"
    by (auto split: list.splits if_splits)
  from assms s1 obtain ip s2 fp s3 ep where
    a: "parse_int_part s1 = Some (ip, s2)" and b: "parse_frac_part s2 = Some (fp, s3)"
    and c: "parse_exp_part s3 = Some (ep, r)"
    unfolding parse_number_def by (auto split: option.splits)
  from parse_int_part_shorter [OF a] parse_frac_part_shorter [OF b] parse_exp_part_shorter [OF c] l1
  show ?thesis by linarith
qed

lemma length_skip_ws: "length (skip_ws s) \<le> length s"
  by (simp add: skip_ws_def length_dropWhile_le)

lemma skip_ws_Cons_shorter: "skip_ws s = c # r \<Longrightarrow> length r < length s"
  using length_skip_ws [of s] by simp


lemma parse_shorter_all:
  "\<forall>acc accm v r.
     (parse_value s = Some (v, r) \<longrightarrow> length r < length s) \<and>
     (parse_elements acc s = Some (v, r) \<longrightarrow> length r < length s) \<and>
     (parse_members accm s = Some (v, r) \<longrightarrow> length r < length s)"
proof (induction s rule: length_induct)
  case (1 s)
  have ih_elements: "length r < length t"
    if "length t < length s" "parse_elements acc t = Some (v, r)" for t acc v r
    using 1 that by blast
  have ih_members: "length r < length t"
    if "length t < length s" "parse_members acc t = Some (v, r)" for t acc v r
    using 1 that by blast
  have ih_value: "length r < length t"
    if "length t < length s" "parse_value t = Some (v, r)" for t v r
    using 1 that by blast
  have val: "length r < length s" if a: "parse_value s = Some (v, r)" for v r
  proof (cases "skip_ws s")
    case Nil
    with a show ?thesis by simp
  next
    case (Cons c t)
    note l = skip_ws_Cons_shorter [OF Cons]
    consider (obj) "c = cu CHR ''{''"
      | (arr) "c \<noteq> cu CHR ''{''" "c = cu CHR ''[''"
      | (str) "c \<noteq> cu CHR ''{''" "c \<noteq> cu CHR ''[''" "c = 0x22"
      | (other) "c \<noteq> cu CHR ''{''" "c \<noteq> cu CHR ''[''" "c \<noteq> 0x22"
      by blast
    then show ?thesis
    proof cases
      case obj
      show ?thesis
      proof (cases "skip_ws t")
        case Nil
        with a Cons obj show ?thesis by simp
      next
        case c2: (Cons d t1)
        show ?thesis
        proof (cases "d = cu CHR ''}''")
          case True
          with a Cons obj c2 have "r = t1" by simp
          with skip_ws_Cons_shorter [OF c2] l show ?thesis by simp
        next
          case False
          with a Cons obj c2 have "parse_members [] t = Some (v, r)" by simp
          from ih_members [OF l this] l show ?thesis by simp
        qed
      qed
    next
      case arr
      show ?thesis
      proof (cases "skip_ws t")
        case Nil
        with a Cons arr show ?thesis by simp
      next
        case c2: (Cons d t1)
        show ?thesis
        proof (cases "d = cu CHR '']''")
          case True
          with a Cons arr c2 have "r = t1" by simp
          with skip_ws_Cons_shorter [OF c2] l show ?thesis by simp
        next
          case False
          with a Cons arr c2 have "parse_elements [] t = Some (v, r)" by simp
          from ih_elements [OF l this] l show ?thesis by simp
        qed
      qed
    next
      case str
      with a Cons obtain x where "parse_string [] t = Some (x, r)"
        by (auto split: option.splits)
      from parse_string_shorter [OF this] l show ?thesis by simp
    next
      case other
      have len: "length (c # t) \<le> length s" using l by simp
      from a Cons other
      consider "r = drop 4 (c # t)" | "r = drop 5 (c # t)"
        | n where "parse_number (c # t) = Some (n, r)"
        by (auto split: if_splits option.splits)
      then show ?thesis
      proof cases
        case 1 with len show ?thesis by simp
      next
        case 2 with len show ?thesis by simp
      next
        case 3
        from parse_number_shorter [OF 3] len show ?thesis by simp
      qed
    qed
  qed
  have elems: "length r < length s" if a: "parse_elements acc s = Some (v, r)" for acc v r
  proof -
    from a obtain x t where pv: "parse_value s = Some (x, t)"
      by (cases "parse_value s") auto
    note lt = val [OF pv]
    from a pv obtain c t1 where sk: "skip_ws t = c # t1"
      by (cases "skip_ws t") auto
    note l1 = skip_ws_Cons_shorter [OF sk]
    from a pv sk consider "length t1 < length s" "parse_elements (acc @ [x]) t1 = Some (v, r)"
      | "r = t1"
      by (auto split: if_splits)
    then show ?thesis
    proof cases
      case 1
      from ih_elements [OF 1] 1(1) show ?thesis by simp
    next
      case 2
      with l1 lt show ?thesis by simp
    qed
  qed
  have membs: "length r < length s" if a: "parse_members acc s = Some (v, r)" for acc v r
  proof -
    from a obtain q t where sk: "skip_ws s = q # t"
      by (cases "skip_ws s") auto
    from a sk have q: "q = 0x22" by (auto split: if_splits)
    from a sk q obtain k t1 where ps: "parse_string [] t = Some (k, t1)"
      by (cases "parse_string [] t") auto
    from a sk q ps obtain c t2 where sk1: "skip_ws t1 = c # t2"
      by (cases "skip_ws t1") auto
    from a sk q ps sk1 have c: "c = cu CHR '':''" "length t2 < length s"
      by (auto split: if_splits)
    from a sk q ps sk1 c obtain x t3 where pv: "parse_value t2 = Some (x, t3)"
      by (cases "parse_value t2") auto
    note l3 = ih_value [OF c(2) pv]
    from a sk q ps sk1 c pv obtain d t4 where sk3: "skip_ws t3 = d # t4"
      by (cases "skip_ws t3") auto
    note l4 = skip_ws_Cons_shorter [OF sk3]
    from a sk q ps sk1 c pv sk3
    consider "length t4 < length s" "parse_members (putProperty acc k x) t4 = Some (v, r)"
      | "r = t4"
      by (auto split: if_splits)
    then show ?thesis
    proof cases
      case 1
      from ih_members [OF 1] 1(1) show ?thesis by simp
    next
      case 2
      with l4 l3 c(2) show ?thesis by simp
    qed
  qed
  from val elems membs show ?case by blast
qed

lemma parse_value_shorter: "parse_value s = Some (v, r) \<Longrightarrow> length r < length s"
  using parse_shorter_all [of s] by blast

lemma parse_elements_unguarded:
  "parse_elements acc s =
     (case parse_value s of
        None \<Rightarrow> None
      | Some (v, r) \<Rightarrow>
          (case skip_ws r of
             [] \<Rightarrow> None
           | c # r1 \<Rightarrow>
               if c = cu CHR '','' then parse_elements (acc @ [v]) r1
               else if c = cu CHR '']'' then Some (JArray (acc @ [v]), r1)
               else None))"
proof (cases "parse_value s")
  case None
  then show ?thesis by (subst parse_elements.simps) simp
next
  case (Some p)
  obtain v r where p: "p = (v, r)" by (cases p)
  note lr = parse_value_shorter [OF Some [unfolded p]]
  show ?thesis
  proof (cases "skip_ws r")
    case Nil
    with Some p show ?thesis by (subst parse_elements.simps) simp
  next
    case (Cons c r1)
    from skip_ws_Cons_shorter [OF Cons] lr have "length r1 < length s" by simp
    with Some p Cons show ?thesis by (subst parse_elements.simps) simp
  qed
qed

lemma parse_members_unguarded:
  "parse_members acc s =
     (case skip_ws s of
        [] \<Rightarrow> None
      | q # r \<Rightarrow>
          if q = 0x22 then
            (case parse_string [] r of
               None \<Rightarrow> None
             | Some (k, r1) \<Rightarrow>
                 (case skip_ws r1 of
                    [] \<Rightarrow> None
                  | c # r2 \<Rightarrow>
                      if c = cu CHR '':'' then
                        (case parse_value r2 of
                           None \<Rightarrow> None
                         | Some (v, r3) \<Rightarrow>
                             (case skip_ws r3 of
                                [] \<Rightarrow> None
                              | d # r4 \<Rightarrow>
                                  if d = cu CHR '','' then parse_members (putProperty acc k v) r4
                                  else if d = cu CHR ''}'' then
                                    Some (JObject (putProperty acc k v), r4)
                                  else None))
                      else None))
          else None)"
proof (cases "skip_ws s")
  case Nil
  then show ?thesis by (subst parse_members.simps) simp
next
  case sk: (Cons q r)
  note l0 = skip_ws_Cons_shorter [OF sk]
  show ?thesis
  proof (cases "parse_string [] r")
    case None
    with sk show ?thesis by (subst parse_members.simps) simp
  next
    case (Some p)
    obtain k r1 where p: "p = (k, r1)" by (cases p)
    note l1 = parse_string_shorter [OF Some [unfolded p]]
    show ?thesis
    proof (cases "skip_ws r1")
      case Nil
      with sk Some p show ?thesis by (subst parse_members.simps) simp
    next
      case sk1: (Cons c r2)
      from skip_ws_Cons_shorter [OF sk1] l1 l0 have l2: "length r2 < length s" by simp
      show ?thesis
      proof (cases "parse_value r2")
        case None
        with sk Some p sk1 l2 show ?thesis by (subst parse_members.simps) simp
      next
        case pv: (Some p')
        obtain v r3 where p': "p' = (v, r3)" by (cases p')
        note l3 = parse_value_shorter [OF pv [unfolded p']]
        show ?thesis
        proof (cases "skip_ws r3")
          case Nil
          with sk Some p sk1 l2 pv p' show ?thesis by (subst parse_members.simps) simp
        next
          case sk3: (Cons d r4)
          from skip_ws_Cons_shorter [OF sk3] l3 l2 have "length r4 < length s" by simp
          with sk Some p sk1 l2 pv p' sk3 show ?thesis by (subst parse_members.simps) simp
        qed
      qed
    qed
  qed
qed

section \<open>The repair engine\<close>

lemma matchCount_append: "matchCount c (s @ t) = matchCount c s + matchCount c t"
  by (simp add: matchCount_def)

lemma matchCount_closers:
  "matchCount (cu CHR ''['') (js ''\"'') = 0" "matchCount (cu CHR '']'') (js ''\"'') = 0"
  "matchCount (cu CHR ''{'') (js ''\"'') = 0" "matchCount (cu CHR ''}'') (js ''\"'') = 0"
  "matchCount (cu CHR ''{'') (js '']'') = 0" "matchCount (cu CHR ''}'') (js '']'') = 0"
  "matchCount c [] = 0"
  by (simp_all add: matchCount_def js_def cu_def)

lemma tryRepairJson_steps: "tryRepairJson s = repair_spec s"
  by (simp add: tryRepairJson_def repair_spec_def Let_def matchCount_append matchCount_closers)

lemma tryRepairJson_shape:
  "\<exists>q b c. tryRepairJson s = trim s @ q @ b @ c
     \<and> (q = [] \<or> q = js ''\"'') \<and> (b = [] \<or> b = js '']'') \<and> (c = [] \<or> c = js ''}'')"
proof (cases "endsWith (trim s) (js ''}'')")
  case True
  then have "tryRepairJson s = trim s @ [] @ [] @ []"
    by (simp add: tryRepairJson_steps repair_spec_def)
  then show ?thesis by blast
next
  case False
  let ?q = "if endsWith (trim s) (js ''\"'') then [] else js ''\"''"
  let ?b = "if matchCount (cu CHR ''['') (trim s) > matchCount (cu CHR '']'') (trim s)
            then js '']'' else []"
  let ?c = "if matchCount (cu CHR ''{'') (trim s) > matchCount (cu CHR ''}'') (trim s)
            then js ''}'' else []"
  from False have "tryRepairJson s = trim s @ ?q @ ?b @ ?c"
    by (simp add: tryRepairJson_steps repair_spec_def)
  moreover have "?q = [] \<or> ?q = js ''\"''" "?b = [] \<or> ?b = js '']''" "?c = [] \<or> ?c = js ''}''"
    by simp_all
  ultimately show ?thesis by blast
qed

lemma trim_decomp:
  "\<exists>l r. s = l @ trim s @ r \<and> list_all isWhiteSpace l \<and> list_all isWhiteSpace r"
proof -
  let ?a = "takeWhile isWhiteSpace s" and ?m = "dropWhile isWhiteSpace s"
  let ?b = "rev (takeWhile isWhiteSpace (rev ?m))"
  have 1: "s = ?a @ ?m" by simp
  have "rev ?m = takeWhile isWhiteSpace (rev ?m) @ dropWhile isWhiteSpace (rev ?m)" by simp
  then have "?m = rev (dropWhile isWhiteSpace (rev ?m)) @ rev (takeWhile isWhiteSpace (rev ?m))"
    by (metis rev_append rev_rev_ident)
  then have 2: "?m = trim s @ ?b" by (simp add: trim_def)
  have 3: "list_all isWhiteSpace ?a" by (simp add: list_all_iff) (meson set_takeWhileD)
  have 4: "list_all isWhiteSpace ?b" by (simp add: list_all_iff) (meson set_takeWhileD)
  from 1 2 have "s = ?a @ trim s @ ?b" by simp
  with 3 4 show ?thesis by blast
qed

text \<open>
  C4. For every input string the repair is the one-pass policy: trim; return the
  trimmed string unchanged when it ends with a closing brace; otherwise append a quote
  unless it ends with one, then one closing bracket when the opening brackets outnumber
  the closing ones, then one closing brace when the opening braces outnumber the closing
  ones. One pass, at most one closing token of each kind whatever the nesting depth, as
  the three sample inputs show.
\<close>

theorem tryRepairJson_one_pass_policy:
  "tryRepairJson s = repair_spec s
   \<and> tryRepairJson (js ''{\"a\": \"hello'') = js ''{\"a\": \"hello\"}''
   \<and> tryRepairJson (js ''{\"list\": [\"x\", \"y\"'') = js ''{\"list\": [\"x\", \"y\"'' @ js '']'' @ js ''}''
   \<and> tryRepairJson (js ''{\"a\": {\"b\": [[\"x'') = js ''{\"a\": {\"b\": [[\"x'' @ js ''\"'' @ js '']'' @ js ''}''"
proof -
  have "tryRepairJson (js ''{\"a\": \"hello'') = js ''{\"a\": \"hello\"}''"
    by code_simp
  moreover have "tryRepairJson (js ''{\"list\": [\"x\", \"y\"'')
                 = js ''{\"list\": [\"x\", \"y\"'' @ js '']'' @ js ''}''"
    by code_simp
  moreover have "tryRepairJson (js ''{\"a\": {\"b\": [[\"x'')
                 = js ''{\"a\": {\"b\": [[\"x'' @ js ''\"'' @ js '']'' @ js ''}''"
    by code_simp
  ultimately show ?thesis using tryRepairJson_steps [of s] by simp
qed

theorem tryRepairJson_one_pass_policy_witness:
  "tryRepairJson (js ''  [[1, 2  '') = repair_spec (js ''  [[1, 2  '')
   \<and> repair_spec (js ''  [[1, 2  '') = js ''[[1, 2\"]''"
proof -
  have "repair_spec (js ''  [[1, 2  '') = js ''[[1, 2\"]''"
    by code_simp
  with tryRepairJson_one_pass_policy [of "js ''  [[1, 2  ''"] show ?thesis by simp
qed

text \<open>
  C10. For every input string \<open>s\<close> the repaired string is the trimmed \<open>s\<close> followed by
  at most one quote, at most one closing bracket and at most one closing brace, in that
  order. The trimmed string is \<open>s\<close> without white space at its two ends, so nothing
  else of the input is deleted, replaced or reordered, and the output is at most three
  code units longer than the trimmed input.
\<close>

theorem tryRepairJson_only_appends:
  "(\<exists>l r. s = l @ trim s @ r \<and> list_all isWhiteSpace l \<and> list_all isWhiteSpace r)
   \<and> (\<exists>q b c. tryRepairJson s = trim s @ q @ b @ c
          \<and> (q = [] \<or> q = js ''\"'') \<and> (b = [] \<or> b = js '']'') \<and> (c = [] \<or> c = js ''}''))
   \<and> prefix (trim s) (tryRepairJson s)
   \<and> length (tryRepairJson s) \<le> length (trim s) + 3"
proof -
  obtain q b c where shape: "tryRepairJson s = trim s @ q @ b @ c"
    "q = [] \<or> q = js ''\"''" "b = [] \<or> b = js '']''" "c = [] \<or> c = js ''}''"
    using tryRepairJson_shape [of s] by blast
  have "length q \<le> 1" "length b \<le> 1" "length c \<le> 1"
    using shape(2-4) by (auto simp: js_def)
  with shape(1) have "length (tryRepairJson s) \<le> length (trim s) + 3" by simp
  moreover from shape(1) have "prefix (trim s) (tryRepairJson s)" by simp
  ultimately show ?thesis using trim_decomp [of s] shape by blast
qed

theorem tryRepairJson_only_appends_witness:
  "prefix (trim (js '' {[a '')) (tryRepairJson (js '' {[a ''))
   \<and> trim (js '' {[a '') = js ''{[a''
   \<and> tryRepairJson (js '' {[a '') = js ''{[a\"]}''
   \<and> length (tryRepairJson (js '' {[a '')) = length (trim (js '' {[a '')) + 3"
proof -
  have "trim (js '' {[a '') = js ''{[a''" by code_simp
  moreover have "tryRepairJson (js '' {[a '') = js ''{[a\"]}''" by code_simp
  moreover have "length (js ''{[a\"]}'') = length (js ''{[a'') + 3" by (simp add: js_def)
  ultimately show ?thesis using tryRepairJson_only_appends [of "js '' {[a ''"] by simp
qed

section \<open>Substrings\<close>

lemma includes_str_iff: "includes_str s t \<longleftrightarrow> (\<exists>p q. s = p @ t @ q)"
proof (induction s)
  case Nil
  show ?case by auto
next
  case (Cons c s)
  show ?case
  proof
    assume "includes_str (c # s) t"
    then consider "prefix t (c # s)" | "includes_str s t" by auto
    then show "\<exists>p q. c # s = p @ t @ q"
    proof cases
      case 1
      then obtain q where "c # s = t @ q" by (auto simp: prefix_def)
      then have "c # s = [] @ t @ q" by simp
      then show ?thesis by blast
    next
      case 2
      with Cons obtain p q where "s = p @ t @ q" by blast
      then have "c # s = (c # p) @ t @ q" by simp
      then show ?thesis by blast
    qed
  next
    assume "\<exists>p q. c # s = p @ t @ q"
    then obtain p q where pq: "c # s = p @ t @ q" by blast
    show "includes_str (c # s) t"
    proof (cases p)
      case Nil
      with pq have "prefix t (c # s)" by (simp add: prefix_def)
      then show ?thesis by simp
    next
      case (Cons a p')
      with pq have "s = p' @ t @ q" by simp
      with Cons.IH have "includes_str s t" by blast
      then show ?thesis by simp
    qed
  qed
qed

lemma includes_str_appendI1: "includes_str a t \<Longrightarrow> includes_str (a @ b) t"
  unfolding includes_str_iff by (metis append.assoc)

lemma includes_str_appendI2: "includes_str b t \<Longrightarrow> includes_str (a @ b) t"
  unfolding includes_str_iff by (metis append.assoc)

lemma includes_str_self: "includes_str t t"
  unfolding includes_str_iff by (metis append_Nil append_Nil2)

section \<open>The error classifier\<close>

lemma safeGenAIRequest_Returned: "safeGenAIRequest (effects, Returned x) = (effects, Returned x)"
  by (simp add: safeGenAIRequest_def)

lemma safeGenAIRequest_Threw:
  "safeGenAIRequest (effects, Threw e) =
     (if mentionsQuota (messageOrEmpty e)
      then (effects, Threw (newError (js ''API_QUOTA_EXCEEDED'')))
      else (effects @ [ConsoleError (js ''GenAI Request Error:'') e], Threw e))"
  by (simp add: safeGenAIRequest_def mentionsQuota_def Let_def)

lemma snd_safeGenAIRequest_Threw:
  "snd (safeGenAIRequest (effects, Threw e)) =
     Threw (if mentionsQuota (messageOrEmpty e) then newError (js ''API_QUOTA_EXCEEDED'') else e)"
  by (simp add: safeGenAIRequest_Threw)

section \<open>The runs of the task operations\<close>

lemma research_backend_failure:
  "generateContent (researchRequest prompt section languageName) = Threw e \<Longrightarrow>
   getEnvironmentalSolution M generateContent prompt section languageName =
     safeGenAIRequest ([GenerateContent (researchRequest prompt section languageName)], Threw e)"
  by (simp add: getEnvironmentalSolution_def Let_def)



lemma research_strict_success:
  "generateContent (researchRequest prompt section languageName) = Returned r \<Longrightarrow>
   JSON_parse (textOrEmptyObject r) = Some data \<Longrightarrow>
   getEnvironmentalSolution M generateContent prompt section languageName =
     ([GenerateContent (researchRequest prompt section languageName)],
      Returned (JObject (putProperty (spread data) (js ''sources'')
                           (JArray (map sourceJson (extractSources r))))))"
  by (simp add: getEnvironmentalSolution_def Let_def safeGenAIRequest_Returned)

lemma research_strict_failure:
  "generateContent (researchRequest prompt section languageName) = Returned r \<Longrightarrow>
   JSON_parse (textOrEmptyObject r) = None \<Longrightarrow>
   getEnvironmentalSolution M generateContent prompt section languageName =
     safeGenAIRequest
       ([GenerateContent (researchRequest prompt section languageName),
         ConsoleWarn (js ''Initial JSON parse failed, attempting repair...'')
           (syntaxError (M (textOrEmptyObject r)))],
        case JSON_parse (tryRepairJson (textOrEmptyObject r)) of
          Some v \<Rightarrow> Returned v
        | None \<Rightarrow> Threw (syntaxError (M (tryRepairJson (textOrEmptyObject r)))))"
  by (simp add: getEnvironmentalSolution_def Let_def split: option.splits)

lemma plan_parse_success:
  "generateContent (planRequest goal languageName) = Returned r \<Longrightarrow>
   JSON_parse (textOrEmptyObject r) = Some v \<Longrightarrow>
   generateSustainabilityPlan M generateContent goal languageName =
     ([GenerateContent (planRequest goal languageName)], Returned v)"
  by (simp add: generateSustainabilityPlan_def Let_def safeGenAIRequest_Returned)

lemma plan_parse_failure:
  "generateContent (planRequest goal languageName) = Returned r \<Longrightarrow>
   JSON_parse (textOrEmptyObject r) = None \<Longrightarrow>
   generateSustainabilityPlan M generateContent goal languageName =
     safeGenAIRequest ([GenerateContent (planRequest goal languageName)],
                       Threw (syntaxError (M (textOrEmptyObject r))))"
  by (simp add: generateSustainabilityPlan_def Let_def)

lemma status_parse_success:
  "generateContent (statusRequest lat lng languageName) = Returned r \<Longrightarrow>
   JSON_parse (textOrEmptyObject r) = Some v \<Longrightarrow>
   getEcoStatus M generateContent lat lng languageName =
     ([GenerateContent (statusRequest lat lng languageName)], Returned v)"
  by (simp add: getEcoStatus_def Let_def safeGenAIRequest_Returned)

lemma status_parse_failure:
  "generateContent (statusRequest lat lng languageName) = Returned r \<Longrightarrow>
   JSON_parse (textOrEmptyObject r) = None \<Longrightarrow>
   getEcoStatus M generateContent lat lng languageName =
     safeGenAIRequest ([GenerateContent (statusRequest lat lng languageName)],
                       Threw (syntaxError (M (textOrEmptyObject r))))"
  by (simp add: getEcoStatus_def Let_def)



section \<open>Grounding extraction\<close>




lemma extractSources_absent: "groundingChunksOf response = None \<Longrightarrow> extractSources response = []"
  by (simp add: extractSources_def)




section \<open>The research request\<close>

lemma researchContents_bound:
  "includes_str (researchContents prompt section languageName)
     (js ''Keep this field under 3000 characters'')"
proof -
  have line: "includes_str
     (js ''      4. Explanation: Provide a deep technical analysis. IMPORTANT: Keep this field under 3000 characters to ensure the JSON remains valid and fits within the response window.'')
     (js ''Keep this field under 3000 characters'')"
    by code_simp
  show ?thesis
    unfolding researchContents_def joinLines.simps
    by (intro includes_str_appendI2 includes_str_appendI1 [OF line])
qed

lemma researchContents_prompt:
  "includes_str (researchContents prompt section languageName) prompt"
  unfolding researchContents_def joinLines.simps
  by (rule includes_str_appendI1, rule includes_str_appendI2, rule includes_str_appendI1,
      rule includes_str_self)

lemma researchContents_section:
  "includes_str (researchContents prompt section languageName) (sectionString section)"
  unfolding researchContents_def joinLines.simps
  by (rule includes_str_appendI1, rule includes_str_appendI2, rule includes_str_appendI2,
      rule includes_str_appendI2, rule includes_str_appendI1, rule includes_str_self)

lemma researchContents_language:
  "includes_str (researchContents prompt section languageName) languageName"
  unfolding researchContents_def joinLines.simps
  apply (rule includes_str_appendI2, rule includes_str_appendI2)
  apply (rule includes_str_appendI2, rule includes_str_appendI2)
  apply (rule includes_str_appendI2, rule includes_str_appendI2)
  apply (rule includes_str_appendI2, rule includes_str_appendI2)
  apply (rule includes_str_appendI1, rule includes_str_appendI2, rule includes_str_appendI1)
  apply (rule includes_str_self)
  done

lemma includes_str_prefix3: "includes_str (a @ b @ c @ r) (a @ b @ c)"
proof -
  have "a @ b @ c @ r = [] @ (a @ b @ c) @ r" by simp
  then show ?thesis unfolding includes_str_iff by blast
qed

lemma researchContents_explanation_line:
  "includes_str (researchContents prompt section languageName)
     ([0x0A] @ js ''      4. Explanation: Provide a deep technical analysis. IMPORTANT: Keep this field under 3000 characters to ensure the JSON remains valid and fits within the response window.'' @ [0x0A])"
  unfolding researchContents_def joinLines.simps
  apply (rule includes_str_appendI2, rule includes_str_appendI2, rule includes_str_appendI2)
  apply (rule includes_str_appendI2, rule includes_str_appendI2, rule includes_str_appendI2)
  apply (rule includes_str_appendI2, rule includes_str_appendI2, rule includes_str_appendI2)
  apply (rule includes_str_appendI2, rule includes_str_appendI2, rule includes_str_appendI2)
  apply (rule includes_str_appendI2, rule includes_str_appendI2, rule includes_str_appendI2)
  apply (rule includes_str_prefix3)
  done

lemma researchContents_language_line:
  "includes_str (researchContents prompt section languageName)
     ([0x0A] @ (js ''      Response requirements in '' @ languageName @ js '':'') @ [0x0A])"
  unfolding researchContents_def joinLines.simps
  apply (rule includes_str_appendI2, rule includes_str_appendI2, rule includes_str_appendI2)
  apply (rule includes_str_appendI2, rule includes_str_appendI2, rule includes_str_appendI2)
  apply (rule includes_str_appendI2)
  apply (rule includes_str_prefix3)
  done

lemma researchContents_first_line:
  "prefix (js ''Act as a world-class environmental scientist. Analyze the following environmental problem: \"''
            @ prompt @ js ''\" in the context of \"'' @ sectionString section @ js ''\".'' @ [0x0A])
     (researchContents prompt section languageName)"
  unfolding researchContents_def joinLines.simps
  by (rule prefixI) simp

lemma researchContents_last_line:
  "endsWith (researchContents prompt section languageName)
     ([0x0A] @ js ''      CRITICAL: Ensure the response is VALID JSON. Do not let strings exceed 3000 characters.'')"
  unfolding researchContents_def joinLines.simps endsWith_def
  by (rule suffixI) simp

lemma researchRequest_explanation_field:
  "fieldSchema (researchRequest prompt section languageName) (js ''explanation'') = Some SString"
  "js ''explanation'' \<in> set (requiredFields (researchRequest prompt section languageName))"
proof -
  have "map_of [(js ''topic'', SString), (js ''summary'', SString), (js ''introduction'', SString),
                (js ''explanation'', SString)] (js ''explanation'') = Some SString"
    by code_simp
  then show "fieldSchema (researchRequest prompt section languageName) (js ''explanation'') = Some SString"
    by (simp add: fieldSchema_def researchRequest_def researchSchema_def)
  show "js ''explanation'' \<in> set (requiredFields (researchRequest prompt section languageName))"
    by (simp add: requiredFields_def researchRequest_def researchSchema_def)
qed

lemma researchContents_length:
  "length (researchContents prompt section languageName)
     = 1018 + length prompt + length (sectionString section) + length languageName"
  by (simp add: researchContents_def js_def)

lemma researchContents_3000:
  "includes_str (researchContents prompt section languageName) (js ''3000'')"
proof -
  have "includes_str (js ''Keep this field under 3000 characters'') (js ''3000'')"
    by code_simp
  then obtain p q where "js ''Keep this field under 3000 characters'' = p @ js ''3000'' @ q"
    unfolding includes_str_iff by blast
  moreover obtain p' q' where
    "researchContents prompt section languageName
     = p' @ js ''Keep this field under 3000 characters'' @ q'"
    using researchContents_bound [of prompt "section" languageName]
    unfolding includes_str_iff by blast
  ultimately have "researchContents prompt section languageName = (p' @ p) @ js ''3000'' @ (q @ q')"
    by simp
  then show ?thesis unfolding includes_str_iff by blast
qed

lemma safeGenAIRequest_effects: "\<exists>rest. fst (safeGenAIRequest (effects, oc)) = effects @ rest"
  by (cases oc) (simp_all add: safeGenAIRequest_Returned safeGenAIRequest_Threw)

lemma research_first_effect:
  "\<exists>rest. fst (getEnvironmentalSolution M generateContent prompt section languageName)
     = GenerateContent (researchRequest prompt section languageName) # rest"
proof (cases "generateContent (researchRequest prompt section languageName)")
  case (Threw e)
  from safeGenAIRequest_effects
    [of "[GenerateContent (researchRequest prompt section languageName)]" "Threw e :: json outcome"]
  show ?thesis by (simp add: research_backend_failure [where generateContent = generateContent, OF Threw])
next
  case (Returned r)
  show ?thesis
  proof (cases "JSON_parse (textOrEmptyObject r)")
    case (Some data)
    show ?thesis by (simp add: research_strict_success [where generateContent = generateContent, OF Returned Some])
  next
    case None
    let ?oc = "case JSON_parse (tryRepairJson (textOrEmptyObject r)) of
                 Some v \<Rightarrow> Returned v
               | None \<Rightarrow> Threw (syntaxError (M (tryRepairJson (textOrEmptyObject r))))"
    from safeGenAIRequest_effects
      [of "[GenerateContent (researchRequest prompt section languageName),
            ConsoleWarn (js ''Initial JSON parse failed, attempting repair...'')
              (syntaxError (M (textOrEmptyObject r)))]" ?oc]
    obtain rest where
      "fst (safeGenAIRequest
              ([GenerateContent (researchRequest prompt section languageName),
                ConsoleWarn (js ''Initial JSON parse failed, attempting repair...'')
                  (syntaxError (M (textOrEmptyObject r)))], ?oc))
       = GenerateContent (researchRequest prompt section languageName)
         # ConsoleWarn (js ''Initial JSON parse failed, attempting repair...'')
             (syntaxError (M (textOrEmptyObject r))) # rest"
      by auto
    then show ?thesis
      by (simp add: research_strict_failure [where generateContent = generateContent, OF Returned None])
  qed
qed

lemma researchRequest_fields:
  "requiredFields (researchRequest prompt section languageName)
     = declaredFields (researchRequest prompt section languageName)"
  "length (declaredFields (researchRequest prompt section languageName)) = 14"
  by (simp_all add: requiredFields_def declaredFields_def researchRequest_def researchSchema_def)

lemma researchRequest_fields_distinct:
  "distinct (declaredFields (researchRequest prompt section languageName))"
proof -
  have "distinct [js ''topic'', js ''summary'', js ''introduction'', js ''explanation'',
          js ''background'', js ''causes'', js ''impacts'', js ''solutions'', js ''examples'',
          js ''preventionTips'', js ''conclusion'', js ''visualPrompt'', js ''category'',
          js ''section'']"
    by code_simp
  then show ?thesis
    by (simp add: declaredFields_def researchRequest_def researchSchema_def)
qed

text \<open>
  C8. For every prompt, section and language the research operation builds its
  request and reaches the backend call with it: building never fails. The request
  enables the search tool, sets a thinking budget of 4000 and requires all fourteen
  fields its schema declares, among them the string field \<open>explanation\<close>. Its
  instruction text starts with the line that carries the prompt and the section, has
  the line that names the language, and has as one whole line the item
  \<open>4. Explanation\<close> with the instruction to keep this field under 3000 characters: the
  bound stands in the item of the explanation field. The text ends with the line that
  repeats the bound of 3000 characters for all strings, and apart from the three
  parameters it has 1018 fixed code units.
\<close>

theorem researchRequest_always_built:
  "(\<exists>rest. fst (getEnvironmentalSolution M generateContent prompt section languageName)
       = GenerateContent (researchRequest prompt section languageName) # rest)
   \<and> tools (config (researchRequest prompt section languageName)) = Some [GoogleSearch]
   \<and> thinkingBudget (config (researchRequest prompt section languageName)) = Some 4000
   \<and> requiredFields (researchRequest prompt section languageName)
       = declaredFields (researchRequest prompt section languageName)
   \<and> length (declaredFields (researchRequest prompt section languageName)) = 14
   \<and> distinct (declaredFields (researchRequest prompt section languageName))
   \<and> includes_str (contents (researchRequest prompt section languageName))
        (js ''Keep this field under 3000 characters'')
   \<and> includes_str (contents (researchRequest prompt section languageName)) (js ''3000'')
   \<and> includes_str (contents (researchRequest prompt section languageName)) prompt
   \<and> includes_str (contents (researchRequest prompt section languageName)) (sectionString section)
   \<and> includes_str (contents (researchRequest prompt section languageName)) languageName
   \<and> fieldSchema (researchRequest prompt section languageName) (js ''explanation'') = Some SString
   \<and> js ''explanation'' \<in> set (requiredFields (researchRequest prompt section languageName))
   \<and> includes_str (contents (researchRequest prompt section languageName))
        ([0x0A] @ js ''      4. Explanation: Provide a deep technical analysis. IMPORTANT: Keep this field under 3000 characters to ensure the JSON remains valid and fits within the response window.'' @ [0x0A])
   \<and> prefix (js ''Act as a world-class environmental scientist. Analyze the following environmental problem: \"''
               @ prompt @ js ''\" in the context of \"'' @ sectionString section @ js ''\".'' @ [0x0A])
        (contents (researchRequest prompt section languageName))
   \<and> includes_str (contents (researchRequest prompt section languageName))
        ([0x0A] @ (js ''      Response requirements in '' @ languageName @ js '':'') @ [0x0A])
   \<and> endsWith (contents (researchRequest prompt section languageName))
        ([0x0A] @ js ''      CRITICAL: Ensure the response is VALID JSON. Do not let strings exceed 3000 characters.'')
   \<and> length (contents (researchRequest prompt section languageName))
       = 1018 + length prompt + length (sectionString section) + length languageName"
proof -
  have c: "contents (researchRequest prompt section languageName)
           = researchContents prompt section languageName"
    by (simp add: researchRequest_def)
  have t: "tools (config (researchRequest prompt section languageName)) = Some [GoogleSearch]"
    "thinkingBudget (config (researchRequest prompt section languageName)) = Some 4000"
    by (simp_all add: researchRequest_def)
  show ?thesis
    unfolding c
    using research_first_effect [of M generateContent prompt "section" languageName] t
      researchRequest_fields [of prompt "section" languageName]
      researchRequest_fields_distinct [of prompt "section" languageName]
      researchContents_bound [of prompt "section" languageName]
      researchContents_3000 [of prompt "section" languageName]
      researchContents_prompt [of prompt "section" languageName]
      researchContents_section [of prompt "section" languageName]
      researchContents_language [of prompt "section" languageName]
      researchRequest_explanation_field [of prompt "section" languageName]
      researchContents_explanation_line [of prompt "section" languageName]
      researchContents_first_line [of prompt "section" languageName]
      researchContents_language_line [of prompt "section" languageName]
      researchContents_last_line [of prompt "section" languageName]
      researchContents_length [of prompt "section" languageName]
    by blast
qed

theorem researchRequest_always_built_witness:
  "fst (getEnvironmentalSolution quotingMessage (respondWith (textResponse (js ''{}'')))
          (js ''ocean acidification'') Water (js ''English''))
     = [GenerateContent (researchRequest (js ''ocean acidification'') Water (js ''English''))]
   \<and> includes_str (contents (researchRequest (js ''ocean acidification'') Water (js ''English'')))
        (js ''ocean acidification'')
   \<and> includes_str (contents (researchRequest (js ''ocean acidification'') Water (js ''English'')))
        (js ''Water'')
   \<and> includes_str (contents (researchRequest (js ''ocean acidification'') Water (js ''English'')))
        ([0x0A] @ js ''      4. Explanation: Provide a deep technical analysis. IMPORTANT: Keep this field under 3000 characters to ensure the JSON remains valid and fits within the response window.'' @ [0x0A])
   \<and> length (contents (researchRequest (js ''ocean acidification'') Water (js ''English''))) = 1049"
proof -
  have r: "respondWith (textResponse (js ''{}'')) (researchRequest (js ''ocean acidification'') Water (js ''English''))
           = Returned (textResponse (js ''{}''))"
    by (simp add: respondWith_def)
  have p: "JSON_parse (textOrEmptyObject (textResponse (js ''{}''))) = Some (JObject [])"
    by code_simp
  have f: "fst (getEnvironmentalSolution quotingMessage (respondWith (textResponse (js ''{}'')))
          (js ''ocean acidification'') Water (js ''English''))
     = [GenerateContent (researchRequest (js ''ocean acidification'') Water (js ''English''))]"
    by (simp add: research_strict_success [where generateContent = "respondWith (textResponse (js ''{}''))", OF r p])
  note inst = researchRequest_always_built
         [of quotingMessage "respondWith (textResponse (js ''{}''))"
             "js ''ocean acidification''" Water "js ''English''"]
  from inst have a: "includes_str (contents (researchRequest (js ''ocean acidification'') Water (js ''English'')))
        (js ''ocean acidification'')"
    by blast
  from inst have "includes_str (contents (researchRequest (js ''ocean acidification'') Water (js ''English'')))
        (sectionString Water)"
    by blast
  then have b: "includes_str (contents (researchRequest (js ''ocean acidification'') Water (js ''English'')))
        (js ''Water'')"
    by simp
  from inst have c: "includes_str (contents (researchRequest (js ''ocean acidification'') Water (js ''English'')))
        ([0x0A] @ js ''      4. Explanation: Provide a deep technical analysis. IMPORTANT: Keep this field under 3000 characters to ensure the JSON remains valid and fits within the response window.'' @ [0x0A])"
    by blast
  from inst have "length (contents (researchRequest (js ''ocean acidification'') Water (js ''English'')))
       = 1018 + length (js ''ocean acidification'') + length (sectionString Water) + length (js ''English'')"
    by blast
  then have d: "length (contents (researchRequest (js ''ocean acidification'') Water (js ''English''))) = 1049"
    by (simp add: js_def)
  from f a b c d show ?thesis by blast
qed

section \<open>Parsing, repair and grounding in the task operations\<close>

lemma map_of_putProperty:
  "map_of (putProperty kvs k v) k' = (if k' = k then Some v else map_of kvs k')"
  by (induction kvs) auto

lemma textOrEmptyObject_empty:
  "text_payload r = None \<or> text_payload r = Some [] \<Longrightarrow> textOrEmptyObject r = js ''{}''"
  by (auto simp: textOrEmptyObject_def)

lemma JSON_parse_empty_object: "JSON_parse (js ''{}'') = Some (JObject [])"
  by code_simp

lemma messageOrEmpty_syntaxError: "messageOrEmpty (syntaxError m) = m"
  by (simp add: messageOrEmpty_def syntaxError_def)

lemma repairAttempts_safeGenAIRequest:
  "repairAttempts (fst (safeGenAIRequest (effects, oc))) = repairAttempts effects"
  by (cases oc) (simp_all add: safeGenAIRequest_Returned safeGenAIRequest_Threw repairAttempts_def)

lemma backendCalls_safeGenAIRequest:
  "backendCalls (fst (safeGenAIRequest (effects, oc))) = backendCalls effects"
  by (cases oc) (simp_all add: safeGenAIRequest_Returned safeGenAIRequest_Threw backendCalls_def)

lemma tryRepairJson_trimmed_brace:
  "trim t = t \<Longrightarrow> endsWith t (js ''}'') \<Longrightarrow> tryRepairJson t = t"
  by (simp add: tryRepairJson_def)




text \<open>
  C2 does not hold of the status and plan operations: the status operation enables the
  search tool, and its result for a response with a complete grounding chunk has no
  \<open>sources\<close> property; neither has the plan operation's result.
\<close>

theorem status_and_plan_results_without_sources:
  "extractSources (groundedResponse (Some (js ''{\"localTemp\": \"21\"}''))
       [webChunk (Some (js ''https://a.example'')) (Some (js ''A''))])
     = [\<lparr> source_title = js ''A'', source_uri = js ''https://a.example'' \<rparr>]
   \<and> tools (config (statusRequest None None (js ''English''))) = Some [GoogleSearch]
   \<and> snd (getEcoStatus quotingMessage
          (respondWith (groundedResponse (Some (js ''{\"localTemp\": \"21\"}''))
             [webChunk (Some (js ''https://a.example'')) (Some (js ''A''))]))
          None None (js ''English''))
       = Returned (JObject [(js ''localTemp'', JString (js ''21''))])
   \<and> getProperty (JObject [(js ''localTemp'', JString (js ''21''))]) (js ''sources'') = None
   \<and> snd (generateSustainabilityPlan quotingMessage
          (respondWith (textResponse (js ''{\"title\": \"t\"}''))) (js ''less plastic'') (js ''English''))
       = Returned (JObject [(js ''title'', JString (js ''t''))])
   \<and> getProperty (JObject [(js ''title'', JString (js ''t''))]) (js ''sources'') = None"
proof -
  have 1: "extractSources (groundedResponse (Some (js ''{\"localTemp\": \"21\"}''))
       [webChunk (Some (js ''https://a.example'')) (Some (js ''A''))])
     = [\<lparr> source_title = js ''A'', source_uri = js ''https://a.example'' \<rparr>]"
    by (simp add: extractSources_def groundingChunksOf_def groundedResponse_def webChunk_def
          pushChunk_def js_def)
  have 2: "tools (config (statusRequest None None (js ''English''))) = Some [GoogleSearch]"
    by (simp add: statusRequest_def)
  have 3: "snd (getEcoStatus quotingMessage
          (respondWith (groundedResponse (Some (js ''{\"localTemp\": \"21\"}''))
             [webChunk (Some (js ''https://a.example'')) (Some (js ''A''))]))
          None None (js ''English''))
       = Returned (JObject [(js ''localTemp'', JString (js ''21''))])"
    by code_simp
  have 4: "getProperty (JObject [(js ''localTemp'', JString (js ''21''))]) (js ''sources'') = None"
    by code_simp
  have 5: "snd (generateSustainabilityPlan quotingMessage
          (respondWith (textResponse (js ''{\"title\": \"t\"}''))) (js ''less plastic'') (js ''English''))
       = Returned (JObject [(js ''title'', JString (js ''t''))])"
    by code_simp
  have 6: "getProperty (JObject [(js ''title'', JString (js ''t''))]) (js ''sources'') = None"
    by code_simp
  from 1 2 3 4 5 6 show ?thesis by blast
qed

text \<open>
  C2, as the code has it. When the strict parse succeeds, the research operation
  returns the parsed value's properties with a \<open>sources\<close> property added: the array
  of the sources extracted from the response, possibly empty. The status and plan
  operations return the parsed value as it is and attach no source list.
\<close>

theorem sources_attached_by_research_strict_parse:
  assumes "JSON_parse (textOrEmptyObject r) = Some data"
  shows
  "(generateContent (researchRequest prompt section languageName) = Returned r \<longrightarrow>
      (\<exists>obj. snd (getEnvironmentalSolution M generateContent prompt section languageName) = Returned obj
         \<and> getProperty obj (js ''sources'') = Some (JArray (map sourceJson (extractSources r)))
         \<and> (\<forall>k. k \<noteq> js ''sources'' \<longrightarrow> getProperty obj k = map_of (spread data) k)))
   \<and> (generateContent (planRequest goal languageName) = Returned r \<longrightarrow>
      snd (generateSustainabilityPlan M generateContent goal languageName) = Returned data)
   \<and> (generateContent (statusRequest lat lng languageName) = Returned r \<longrightarrow>
      snd (getEcoStatus M generateContent lat lng languageName) = Returned data)"
proof (intro conjI impI)
  assume g: "generateContent (researchRequest prompt section languageName) = Returned r"
  let ?obj = "JObject (putProperty (spread data) (js ''sources'')
                         (JArray (map sourceJson (extractSources r))))"
  have "snd (getEnvironmentalSolution M generateContent prompt section languageName) = Returned ?obj"
    by (simp add: research_strict_success [where generateContent = generateContent, OF g assms])
  moreover have "getProperty ?obj (js ''sources'') = Some (JArray (map sourceJson (extractSources r)))"
    by (simp add: map_of_putProperty)
  moreover have "\<forall>k. k \<noteq> js ''sources'' \<longrightarrow> getProperty ?obj k = map_of (spread data) k"
    by (simp add: map_of_putProperty)
  ultimately show "\<exists>obj. snd (getEnvironmentalSolution M generateContent prompt section languageName) = Returned obj
         \<and> getProperty obj (js ''sources'') = Some (JArray (map sourceJson (extractSources r)))
         \<and> (\<forall>k. k \<noteq> js ''sources'' \<longrightarrow> getProperty obj k = map_of (spread data) k)"
    by blast
next
  assume g: "generateContent (planRequest goal languageName) = Returned r"
  show "snd (generateSustainabilityPlan M generateContent goal languageName) = Returned data"
    by (simp add: plan_parse_success [where generateContent = generateContent, OF g assms])
next
  assume g: "generateContent (statusRequest lat lng languageName) = Returned r"
  show "snd (getEcoStatus M generateContent lat lng languageName) = Returned data"
    by (simp add: status_parse_success [where generateContent = generateContent, OF g assms])
qed

theorem sources_attached_by_research_strict_parse_witness:
  "JSON_parse (textOrEmptyObject (groundedResponse (Some (js ''{\"section\": \"Water\"}''))
       [webChunk (Some (js ''https://a.example'')) (Some (js ''A'')),
        webChunk (Some (js ''https://b.example'')) (Some (js ''B''))]))
     = Some (JObject [(js ''section'', JString (js ''Water''))])
   \<and> snd (getEnvironmentalSolution quotingMessage
          (respondWith (groundedResponse (Some (js ''{\"section\": \"Water\"}''))
             [webChunk (Some (js ''https://a.example'')) (Some (js ''A'')),
              webChunk (Some (js ''https://b.example'')) (Some (js ''B''))]))
          (js ''ocean acidification'') Water (js ''English''))
       = Returned (JObject
           [(js ''section'', JString (js ''Water'')),
            (js ''sources'', JArray
               [JObject [(js ''title'', JString (js ''A'')), (js ''uri'', JString (js ''https://a.example''))],
                JObject [(js ''title'', JString (js ''B'')), (js ''uri'', JString (js ''https://b.example''))]])])
   \<and> snd (getEcoStatus quotingMessage
          (respondWith (groundedResponse (Some (js ''{\"section\": \"Water\"}''))
             [webChunk (Some (js ''https://a.example'')) (Some (js ''A'')),
              webChunk (Some (js ''https://b.example'')) (Some (js ''B''))]))
          None None (js ''English''))
       = Returned (JObject [(js ''section'', JString (js ''Water''))])"
proof -
  let ?r = "groundedResponse (Some (js ''{\"section\": \"Water\"}''))
       [webChunk (Some (js ''https://a.example'')) (Some (js ''A'')),
        webChunk (Some (js ''https://b.example'')) (Some (js ''B''))]"
  let ?data = "JObject [(js ''section'', JString (js ''Water''))]"
  have p: "JSON_parse (textOrEmptyObject ?r) = Some ?data" by code_simp
  have g2: "respondWith ?r (statusRequest None None (js ''English'')) = Returned ?r"
    by (simp add: respondWith_def)
  have research: "snd (getEnvironmentalSolution quotingMessage (respondWith ?r)
          (js ''ocean acidification'') Water (js ''English''))
       = Returned (JObject
           [(js ''section'', JString (js ''Water'')),
            (js ''sources'', JArray
               [JObject [(js ''title'', JString (js ''A'')), (js ''uri'', JString (js ''https://a.example''))],
                JObject [(js ''title'', JString (js ''B'')), (js ''uri'', JString (js ''https://b.example''))]])])"
    by code_simp
  note inst = sources_attached_by_research_strict_parse
    [OF p, of "respondWith ?r" "js ''ocean acidification''" Water "js ''English''" quotingMessage
          "js ''less plastic''" None None]
  from inst [THEN conjunct2, THEN conjunct2, rule_format, OF g2] p research
  show ?thesis by simp
qed

text \<open>
  C5 fails in two places. A text that ends with a closing brace but starts with a byte
  order mark is rejected by the strict parse; the repair trims the mark away, so it is
  not a no-op, and the repaired text parses. And when both parses fail with an error
  whose message contains \<open>429\<close>, the operation throws the quota error, not that parse
  error.
\<close>

theorem repair_changes_braced_text_and_error_reclassified:
  "endsWith (0xFEFF # js ''{}'') (js ''}'')
   \<and> JSON_parse (0xFEFF # js ''{}'') = None
   \<and> tryRepairJson (0xFEFF # js ''{}'') = js ''{}''
   \<and> snd (getEnvironmentalSolution quotingMessage
          (respondWith (textResponse (0xFEFF # js ''{}''))) (js ''smog'') Air (js ''English''))
       = Returned (JObject [])
   \<and> JSON_parse (js ''[429, oops'') = None
   \<and> JSON_parse (tryRepairJson (js ''[429, oops'')) = None
   \<and> snd (getEnvironmentalSolution quotingMessage
          (respondWith (textResponse (js ''[429, oops''))) (js ''smog'') Air (js ''English''))
       = Threw (newError (js ''API_QUOTA_EXCEEDED''))"
proof -
  have 1: "endsWith (0xFEFF # js ''{}'') (js ''}'')" by code_simp
  have 2: "JSON_parse (0xFEFF # js ''{}'') = None" by code_simp
  have 3: "tryRepairJson (0xFEFF # js ''{}'') = js ''{}''" by code_simp
  have 4: "snd (getEnvironmentalSolution quotingMessage
          (respondWith (textResponse (0xFEFF # js ''{}''))) (js ''smog'') Air (js ''English''))
       = Returned (JObject [])" by code_simp
  have 5: "JSON_parse (js ''[429, oops'') = None" by code_simp
  have 6: "JSON_parse (tryRepairJson (js ''[429, oops'')) = None" by code_simp
  have 7: "snd (getEnvironmentalSolution quotingMessage
          (respondWith (textResponse (js ''[429, oops''))) (js ''smog'') Air (js ''English''))
       = Threw (newError (js ''API_QUOTA_EXCEEDED''))" by code_simp
  from 1 2 3 4 5 6 7 show ?thesis by blast
qed

text \<open>
  C5, as the code has it. When the strict parse fails and the once-repaired text fails
  to parse too, the research operation fails as a whole: after one backend call and
  one repair attempt it returns no value and throws the error of the second parse as
  the classifier passes it on, that is unchanged when its message contains neither
  \<open>429\<close> nor \<open>RESOURCE_EXHAUSTED\<close>. For a text that has no white space at its ends
  and ends with a closing brace the repair changes nothing, and the second parse fails
  as the first one did.
\<close>

theorem failed_repair_fails_the_call:
  assumes "generateContent (researchRequest prompt section languageName) = Returned r"
    and "JSON_parse (textOrEmptyObject r) = None"
    and "JSON_parse (tryRepairJson (textOrEmptyObject r)) = None"
  shows
  "getEnvironmentalSolution M generateContent prompt section languageName =
     safeGenAIRequest
       ([GenerateContent (researchRequest prompt section languageName),
         ConsoleWarn (js ''Initial JSON parse failed, attempting repair...'')
           (syntaxError (M (textOrEmptyObject r)))],
        Threw (syntaxError (M (tryRepairJson (textOrEmptyObject r)))))
   \<and> snd (getEnvironmentalSolution M generateContent prompt section languageName) =
       Threw (if mentionsQuota (M (tryRepairJson (textOrEmptyObject r)))
              then newError (js ''API_QUOTA_EXCEEDED'')
              else syntaxError (M (tryRepairJson (textOrEmptyObject r))))
   \<and> repairAttempts (fst (getEnvironmentalSolution M generateContent prompt section languageName)) = 1
   \<and> backendCalls (fst (getEnvironmentalSolution M generateContent prompt section languageName)) = 1
   \<and> (trim (textOrEmptyObject r) = textOrEmptyObject r \<and> endsWith (textOrEmptyObject r) (js ''}'')
        \<longrightarrow> tryRepairJson (textOrEmptyObject r) = textOrEmptyObject r
            \<and> snd (getEnvironmentalSolution M generateContent prompt section languageName) =
                Threw (if mentionsQuota (M (textOrEmptyObject r))
                       then newError (js ''API_QUOTA_EXCEEDED'')
                       else syntaxError (M (textOrEmptyObject r))))"
proof -
  have run: "getEnvironmentalSolution M generateContent prompt section languageName =
     safeGenAIRequest
       ([GenerateContent (researchRequest prompt section languageName),
         ConsoleWarn (js ''Initial JSON parse failed, attempting repair...'')
           (syntaxError (M (textOrEmptyObject r)))],
        Threw (syntaxError (M (tryRepairJson (textOrEmptyObject r)))))"
    using research_strict_failure [where generateContent = generateContent, OF assms(1) assms(2), of M]
      assms(3)
    by simp
  have out: "snd (getEnvironmentalSolution M generateContent prompt section languageName) =
       Threw (if mentionsQuota (M (tryRepairJson (textOrEmptyObject r)))
              then newError (js ''API_QUOTA_EXCEEDED'')
              else syntaxError (M (tryRepairJson (textOrEmptyObject r))))"
    unfolding run snd_safeGenAIRequest_Threw messageOrEmpty_syntaxError by (rule refl)
  have rep: "repairAttempts (fst (getEnvironmentalSolution M generateContent prompt section languageName)) = 1"
    unfolding run repairAttempts_safeGenAIRequest by (simp add: repairAttempts_def)
  have calls: "backendCalls (fst (getEnvironmentalSolution M generateContent prompt section languageName)) = 1"
    unfolding run backendCalls_safeGenAIRequest by (simp add: backendCalls_def)
  have noop: "tryRepairJson (textOrEmptyObject r) = textOrEmptyObject r
            \<and> snd (getEnvironmentalSolution M generateContent prompt section languageName) =
                Threw (if mentionsQuota (M (textOrEmptyObject r))
                       then newError (js ''API_QUOTA_EXCEEDED'')
                       else syntaxError (M (textOrEmptyObject r)))"
    if "trim (textOrEmptyObject r) = textOrEmptyObject r \<and> endsWith (textOrEmptyObject r) (js ''}'')"
  proof -
    from that have "tryRepairJson (textOrEmptyObject r) = textOrEmptyObject r"
      by (simp add: tryRepairJson_trimmed_brace)
    with out show ?thesis by simp
  qed
  from run out rep calls noop show ?thesis by blast
qed

theorem failed_repair_fails_the_call_witness:
  "respondWith (textResponse (js ''{\"a\": 1,}''))
     (researchRequest (js ''smog'') Air (js ''English''))
     = Returned (textResponse (js ''{\"a\": 1,}''))
   \<and> JSON_parse (textOrEmptyObject (textResponse (js ''{\"a\": 1,}''))) = None
   \<and> JSON_parse (tryRepairJson (textOrEmptyObject (textResponse (js ''{\"a\": 1,}'')))) = None
   \<and> trim (textOrEmptyObject (textResponse (js ''{\"a\": 1,}'')))
       = textOrEmptyObject (textResponse (js ''{\"a\": 1,}''))
   \<and> endsWith (textOrEmptyObject (textResponse (js ''{\"a\": 1,}''))) (js ''}'')
   \<and> snd (getEnvironmentalSolution quotingMessage
          (respondWith (textResponse (js ''{\"a\": 1,}''))) (js ''smog'') Air (js ''English''))
       = Threw (syntaxError (quotingMessage (js ''{\"a\": 1,}'')))
   \<and> repairAttempts (fst (getEnvironmentalSolution quotingMessage
          (respondWith (textResponse (js ''{\"a\": 1,}''))) (js ''smog'') Air (js ''English''))) = 1"
proof -
  let ?r = "textResponse (js ''{\"a\": 1,}'')"
  have t: "textOrEmptyObject ?r = js ''{\"a\": 1,}''" by code_simp
  have g: "respondWith ?r (researchRequest (js ''smog'') Air (js ''English'')) = Returned ?r"
    by (simp add: respondWith_def)
  have p1: "JSON_parse (textOrEmptyObject ?r) = None" by code_simp
  have p2: "JSON_parse (tryRepairJson (textOrEmptyObject ?r)) = None" by code_simp
  have tr: "trim (textOrEmptyObject ?r) = textOrEmptyObject ?r" by code_simp
  have ew: "endsWith (textOrEmptyObject ?r) (js ''}'')" by code_simp
  have nq: "\<not> mentionsQuota (quotingMessage (textOrEmptyObject ?r))" by code_simp
  note inst = failed_repair_fails_the_call
    [where generateContent = "respondWith ?r", OF g p1 p2, of quotingMessage]
  note noop = inst [THEN conjunct2, THEN conjunct2, THEN conjunct2, THEN conjunct2, rule_format,
                    OF conjI [OF tr ew]]
  note rep = inst [THEN conjunct2, THEN conjunct2, THEN conjunct1]
  from noop [THEN conjunct2] nq
  have "snd (getEnvironmentalSolution quotingMessage (respondWith ?r) (js ''smog'') Air (js ''English''))
        = Threw (syntaxError (quotingMessage (textOrEmptyObject ?r)))"
    by simp
  then have s: "snd (getEnvironmentalSolution quotingMessage (respondWith ?r) (js ''smog'') Air (js ''English''))
        = Threw (syntaxError (quotingMessage (js ''{\"a\": 1,}'')))"
    unfolding t .
  from g p1 p2 tr ew s rep show ?thesis by blast
qed

text \<open>
  C6 does not hold: with an engine whose message quotes the rejected text, the response
  text \<open>RESOURCE_EXHAUSTED\<close> fails both parses, and the research and status operations
  report quota exhaustion.
\<close>

theorem parse_error_reported_as_quota:
  "JSON_parse (js ''RESOURCE_EXHAUSTED'') = None
   \<and> JSON_parse (tryRepairJson (js ''RESOURCE_EXHAUSTED'')) = None
   \<and> snd (getEnvironmentalSolution quotingMessage
          (respondWith (textResponse (js ''RESOURCE_EXHAUSTED''))) (js ''smog'') Air (js ''English''))
       = Threw (newError (js ''API_QUOTA_EXCEEDED''))
   \<and> snd (getEcoStatus quotingMessage
          (respondWith (textResponse (js ''RESOURCE_EXHAUSTED''))) None None (js ''English''))
       = Threw (newError (js ''API_QUOTA_EXCEEDED''))"
proof -
  have 1: "JSON_parse (js ''RESOURCE_EXHAUSTED'') = None" by code_simp
  have 2: "JSON_parse (tryRepairJson (js ''RESOURCE_EXHAUSTED'')) = None" by code_simp
  have 3: "snd (getEnvironmentalSolution quotingMessage
          (respondWith (textResponse (js ''RESOURCE_EXHAUSTED''))) (js ''smog'') Air (js ''English''))
       = Threw (newError (js ''API_QUOTA_EXCEEDED''))" by code_simp
  have 4: "snd (getEcoStatus quotingMessage
          (respondWith (textResponse (js ''RESOURCE_EXHAUSTED''))) None None (js ''English''))
       = Threw (newError (js ''API_QUOTA_EXCEEDED''))" by code_simp
  from 1 2 3 4 show ?thesis by blast
qed

text \<open>
  C6, as the code has it. \<open>JSON.parse\<close> runs inside the function that
  \<open>safeGenAIRequest\<close> wraps, so a local parse failure passes through the classifier as
  a backend failure does: the operation throws the parse error unchanged when its
  message contains neither \<open>429\<close> nor \<open>RESOURCE_EXHAUSTED\<close>, and the classifier's
  quota error otherwise.
\<close>

theorem parse_failures_pass_through_classifier:
  assumes "JSON_parse (textOrEmptyObject r) = None"
  shows
  "(generateContent (researchRequest prompt section languageName) = Returned r
      \<and> JSON_parse (tryRepairJson (textOrEmptyObject r)) = None \<longrightarrow>
      snd (getEnvironmentalSolution M generateContent prompt section languageName) =
        Threw (if mentionsQuota (M (tryRepairJson (textOrEmptyObject r)))
               then newError (js ''API_QUOTA_EXCEEDED'')
               else syntaxError (M (tryRepairJson (textOrEmptyObject r)))))
   \<and> (generateContent (planRequest goal languageName) = Returned r \<longrightarrow>
      snd (generateSustainabilityPlan M generateContent goal languageName) =
        Threw (if mentionsQuota (M (textOrEmptyObject r))
               then newError (js ''API_QUOTA_EXCEEDED'')
               else syntaxError (M (textOrEmptyObject r))))
   \<and> (generateContent (statusRequest lat lng languageName) = Returned r \<longrightarrow>
      snd (getEcoStatus M generateContent lat lng languageName) =
        Threw (if mentionsQuota (M (textOrEmptyObject r))
               then newError (js ''API_QUOTA_EXCEEDED'')
               else syntaxError (M (textOrEmptyObject r))))"
proof (intro conjI impI)
  assume a: "generateContent (researchRequest prompt section languageName) = Returned r
      \<and> JSON_parse (tryRepairJson (textOrEmptyObject r)) = None"
  then have g: "generateContent (researchRequest prompt section languageName) = Returned r"
    and p2: "JSON_parse (tryRepairJson (textOrEmptyObject r)) = None"
    by simp_all
  show "snd (getEnvironmentalSolution M generateContent prompt section languageName) =
        Threw (if mentionsQuota (M (tryRepairJson (textOrEmptyObject r)))
               then newError (js ''API_QUOTA_EXCEEDED'')
               else syntaxError (M (tryRepairJson (textOrEmptyObject r))))"
    unfolding research_strict_failure [where generateContent = generateContent, OF g assms, of M]
      p2 option.case snd_safeGenAIRequest_Threw messageOrEmpty_syntaxError
    by (rule refl)
next
  assume g: "generateContent (planRequest goal languageName) = Returned r"
  show "snd (generateSustainabilityPlan M generateContent goal languageName) =
        Threw (if mentionsQuota (M (textOrEmptyObject r))
               then newError (js ''API_QUOTA_EXCEEDED'')
               else syntaxError (M (textOrEmptyObject r)))"
    unfolding plan_parse_failure [where generateContent = generateContent, OF g assms, of M]
      snd_safeGenAIRequest_Threw messageOrEmpty_syntaxError
    by (rule refl)
next
  assume g: "generateContent (statusRequest lat lng languageName) = Returned r"
  show "snd (getEcoStatus M generateContent lat lng languageName) =
        Threw (if mentionsQuota (M (textOrEmptyObject r))
               then newError (js ''API_QUOTA_EXCEEDED'')
               else syntaxError (M (textOrEmptyObject r)))"
    unfolding status_parse_failure [where generateContent = generateContent, OF g assms, of M]
      snd_safeGenAIRequest_Threw messageOrEmpty_syntaxError
    by (rule refl)
qed

theorem parse_failures_pass_through_classifier_witness:
  "JSON_parse (textOrEmptyObject (textResponse (js ''[1, 2,]''))) = None
   \<and> respondWith (textResponse (js ''[1, 2,]'')) (planRequest (js ''less plastic'') (js ''English''))
       = Returned (textResponse (js ''[1, 2,]''))
   \<and> snd (generateSustainabilityPlan quotingMessage
          (respondWith (textResponse (js ''[1, 2,]''))) (js ''less plastic'') (js ''English''))
       = Threw (syntaxError (quotingMessage (js ''[1, 2,]'')))
   \<and> JSON_parse (tryRepairJson (textOrEmptyObject (textResponse (js ''[1, 2,]'')))) = None
   \<and> snd (getEnvironmentalSolution quotingMessage
          (respondWith (textResponse (js ''[1, 2,]''))) (js ''smog'') Air (js ''English''))
       = Threw (syntaxError (quotingMessage (js ''[1, 2,]\"'')))"
proof -
  let ?r = "textResponse (js ''[1, 2,]'')"
  have t: "textOrEmptyObject ?r = js ''[1, 2,]''" by code_simp
  have rp: "tryRepairJson (textOrEmptyObject ?r) = js ''[1, 2,]\"''" by code_simp
  have p: "JSON_parse (textOrEmptyObject ?r) = None" by code_simp
  have p2: "JSON_parse (tryRepairJson (textOrEmptyObject ?r)) = None" by code_simp
  have g1: "respondWith ?r (researchRequest (js ''smog'') Air (js ''English'')) = Returned ?r"
    by (simp add: respondWith_def)
  have g2: "respondWith ?r (planRequest (js ''less plastic'') (js ''English'')) = Returned ?r"
    by (simp add: respondWith_def)
  have nq: "\<not> mentionsQuota (quotingMessage (js ''[1, 2,]''))"
    "\<not> mentionsQuota (quotingMessage (js ''[1, 2,]\"''))" by code_simp+
  note inst = parse_failures_pass_through_classifier
    [OF p, of "respondWith ?r" "js ''smog''" Air "js ''English''" quotingMessage
          "js ''less plastic''" None None]
  from inst [THEN conjunct1, rule_format, OF conjI [OF g1 p2]] rp nq
  have a: "snd (getEnvironmentalSolution quotingMessage (respondWith ?r) (js ''smog'') Air (js ''English''))
       = Threw (syntaxError (quotingMessage (js ''[1, 2,]\"'')))"
    by simp
  from inst [THEN conjunct2, THEN conjunct1, rule_format, OF g2] t nq
  have b: "snd (generateSustainabilityPlan quotingMessage (respondWith ?r) (js ''less plastic'') (js ''English''))
       = Threw (syntaxError (quotingMessage (js ''[1, 2,]'')))"
    by simp
  from a b p p2 g2 show ?thesis by simp
qed

text \<open>
  C9 does not hold in its last part: for a response without text that carries a
  complete grounding chunk, the research operation returns an object whose \<open>sources\<close>
  array is not empty.
\<close>

theorem empty_text_with_grounding_chunk:
  "text_payload (groundedResponse None [webChunk (Some (js ''https://a.example'')) (Some (js ''A''))]) = None
   \<and> snd (getEnvironmentalSolution quotingMessage
          (respondWith (groundedResponse None
             [webChunk (Some (js ''https://a.example'')) (Some (js ''A''))]))
          (js ''smog'') Air (js ''English''))
       = Returned (JObject
           [(js ''sources'', JArray
               [JObject [(js ''title'', JString (js ''A'')),
                         (js ''uri'', JString (js ''https://a.example''))]])])"
proof -
  have 1: "text_payload (groundedResponse None
             [webChunk (Some (js ''https://a.example'')) (Some (js ''A''))]) = None"
    by (simp add: groundedResponse_def)
  have 2: "snd (getEnvironmentalSolution quotingMessage
          (respondWith (groundedResponse None
             [webChunk (Some (js ''https://a.example'')) (Some (js ''A''))]))
          (js ''smog'') Air (js ''English''))
       = Returned (JObject
           [(js ''sources'', JArray
               [JObject [(js ''title'', JString (js ''A'')),
                         (js ''uri'', JString (js ''https://a.example''))]])])"
    by code_simp
  from 1 2 show ?thesis by blast
qed

lemma sources_not_required:
  "js ''sources'' \<notin> set (requiredFields (researchRequest prompt section languageName))"
proof -
  have "js ''sources'' \<notin> set [js ''topic'', js ''summary'', js ''introduction'', js ''explanation'',
          js ''background'', js ''causes'', js ''impacts'', js ''solutions'', js ''examples'',
          js ''preventionTips'', js ''conclusion'', js ''visualPrompt'', js ''category'',
          js ''section'']"
    by code_simp
  then show ?thesis
    by (simp add: requiredFields_def researchRequest_def researchSchema_def)
qed

text \<open>
  C9, as the code has it. When the backend call succeeds with an empty or missing text,
  no operation fails: the text is replaced by \<open>{}\<close>, the strict parse succeeds, and the
  caller receives an object with none of the schema's required fields. The plan and
  status operations return the empty object. The research operation returns an object
  whose only field is the \<open>sources\<close> array extracted from the response, which is empty
  when the response has no grounding chunk list.
\<close>

theorem empty_text_yields_object_without_required_fields:
  assumes "text_payload r = None \<or> text_payload r = Some []"
  shows
  "(generateContent (researchRequest prompt section languageName) = Returned r \<longrightarrow>
      getEnvironmentalSolution M generateContent prompt section languageName =
        ([GenerateContent (researchRequest prompt section languageName)],
         Returned (JObject [(js ''sources'', JArray (map sourceJson (extractSources r)))]))
      \<and> (\<forall>k \<in> set (requiredFields (researchRequest prompt section languageName)).
            getProperty (JObject [(js ''sources'', JArray (map sourceJson (extractSources r)))]) k = None)
      \<and> (groundingChunksOf r = None \<longrightarrow>
            snd (getEnvironmentalSolution M generateContent prompt section languageName) =
              Returned (JObject [(js ''sources'', JArray [])])))
   \<and> (generateContent (planRequest goal languageName) = Returned r \<longrightarrow>
      generateSustainabilityPlan M generateContent goal languageName =
        ([GenerateContent (planRequest goal languageName)], Returned (JObject [])))
   \<and> (generateContent (statusRequest lat lng languageName) = Returned r \<longrightarrow>
      getEcoStatus M generateContent lat lng languageName =
        ([GenerateContent (statusRequest lat lng languageName)], Returned (JObject [])))"
proof -
  from assms have "textOrEmptyObject r = js ''{}''" by (rule textOrEmptyObject_empty)
  then have p: "JSON_parse (textOrEmptyObject r) = Some (JObject [])"
    by (simp add: JSON_parse_empty_object)
  show ?thesis
  proof (intro conjI impI ballI)
    assume g: "generateContent (researchRequest prompt section languageName) = Returned r"
    show run: "getEnvironmentalSolution M generateContent prompt section languageName =
        ([GenerateContent (researchRequest prompt section languageName)],
         Returned (JObject [(js ''sources'', JArray (map sourceJson (extractSources r)))]))"
      by (simp add: research_strict_success [where generateContent = generateContent, OF g p])
    show "snd (getEnvironmentalSolution M generateContent prompt section languageName) =
              Returned (JObject [(js ''sources'', JArray [])])"
      if "groundingChunksOf r = None"
      using that run by (simp add: extractSources_absent)
  next
    fix k
    assume "k \<in> set (requiredFields (researchRequest prompt section languageName))"
    with sources_not_required [of prompt "section" languageName] have "k \<noteq> js ''sources''"
      by blast
    then show "getProperty (JObject [(js ''sources'', JArray (map sourceJson (extractSources r)))]) k = None"
      by simp
  next
    assume g: "generateContent (planRequest goal languageName) = Returned r"
    show "generateSustainabilityPlan M generateContent goal languageName =
        ([GenerateContent (planRequest goal languageName)], Returned (JObject []))"
      by (simp add: plan_parse_success [where generateContent = generateContent, OF g p])
  next
    assume g: "generateContent (statusRequest lat lng languageName) = Returned r"
    show "getEcoStatus M generateContent lat lng languageName =
        ([GenerateContent (statusRequest lat lng languageName)], Returned (JObject []))"
      by (simp add: status_parse_success [where generateContent = generateContent, OF g p])
  qed
qed

theorem empty_text_yields_object_without_required_fields_witness:
  "(text_payload (textResponse []) = None \<or> text_payload (textResponse []) = Some [])
   \<and> respondWith (textResponse []) (researchRequest (js ''smog'') Air (js ''English''))
       = Returned (textResponse [])
   \<and> groundingChunksOf (textResponse []) = None
   \<and> snd (getEnvironmentalSolution quotingMessage (respondWith (textResponse []))
          (js ''smog'') Air (js ''English''))
       = Returned (JObject [(js ''sources'', JArray [])])
   \<and> js ''topic'' \<in> set (requiredFields (researchRequest (js ''smog'') Air (js ''English'')))
   \<and> getProperty (JObject [(js ''sources'', JArray (map sourceJson (extractSources (textResponse []))))])
        (js ''topic'') = None
   \<and> getEcoStatus quotingMessage (respondWith (textResponse [])) None None (js ''English'')
       = ([GenerateContent (statusRequest None None (js ''English''))], Returned (JObject []))"
proof -
  let ?r = "textResponse []"
  have e: "text_payload ?r = None \<or> text_payload ?r = Some []"
    by (simp add: textResponse_def)
  have g1: "respondWith ?r (researchRequest (js ''smog'') Air (js ''English'')) = Returned ?r"
    by (simp add: respondWith_def)
  have g2: "respondWith ?r (statusRequest None None (js ''English'')) = Returned ?r"
    by (simp add: respondWith_def)
  have n: "groundingChunksOf ?r = None"
    by (simp add: groundingChunksOf_def textResponse_def)
  have t: "js ''topic'' \<in> set (requiredFields (researchRequest (js ''smog'') Air (js ''English'')))"
    by (simp add: requiredFields_def researchRequest_def researchSchema_def)
  note inst = empty_text_yields_object_without_required_fields
    [OF e, of "respondWith ?r" "js ''smog''" Air "js ''English''" quotingMessage
          "js ''less plastic''" None None]
  note research = inst [THEN conjunct1, rule_format, OF g1]
  note status = inst [THEN conjunct2, THEN conjunct2, rule_format, OF g2]
  from research [THEN conjunct2, THEN conjunct2, rule_format, OF n]
       research [THEN conjunct2, THEN conjunct1, rule_format, OF t]
       status e g1 n t
  show ?thesis by simp
qed

end
